theory Spec2Isabelle
  imports Main "HOL-Library.Word" "HOL-Library.Sublist" "HOL-Library.AList"
begin

unbundle bit_operations_syntax

section \<open>Exceptions, log records and the observable world\<close>

text \<open>
  The three classes of the repository (\<^verbatim>\<open>IAMAdmin\<close>, \<^verbatim>\<open>InstanceManagement\<close>,
  \<^verbatim>\<open>StorageBucket\<close>) are wrappers around calls to a cloud provider. A method is
  modelled as a function from the world to a result and the new world. The result is
  \<open>Inl e\<close> when the Python method leaves with exception \<open>e\<close> and \<open>Inr v\<close> when it
  returns \<open>v\<close>. The world survives an exception: what was logged, written or changed at
  the provider before the exception stays.
\<close>

datatype error =
    ClientError string string
  | WaiterError string
  | TypeError string
  | UnboundLocalError string
  | AttributeError string
  | OSError string
  | JSONDecodeError

text \<open>
  \<open>ClientError code message\<close> is botocore's \<^verbatim>\<open>ClientError\<close> with
  \<^verbatim>\<open>response['Error']['Code']\<close> and \<^verbatim>\<open>response['Error']['Message']\<close>: the only
  exception class the \<^verbatim>\<open>except\<close> clauses of the repository catch. The others are
  Python's own exceptions, named by the variable or attribute they complain about.
\<close>

fun is_client_error :: "error \<Rightarrow> bool" where
  "is_client_error (ClientError c m) = True"
| "is_client_error e = False"

fun repr_error :: "error \<Rightarrow> string" where
  "repr_error (ClientError c m) = ''ClientError('' @ c @ '': '' @ m @ '')''"
| "repr_error (WaiterError m) = ''WaiterError('' @ m @ '')''"
| "repr_error (TypeError m) = ''TypeError('' @ m @ '')''"
| "repr_error (UnboundLocalError m) = ''UnboundLocalError('' @ m @ '')''"
| "repr_error (AttributeError m) = ''AttributeError('' @ m @ '')''"
| "repr_error (OSError m) = ''OSError('' @ m @ '')''"
| "repr_error JSONDecodeError = ''JSONDecodeError()''"

datatype json =
    JNull
  | JBool bool
  | JInt int
  | JStr string
  | JArr "json list"
  | JObj "(string \<times> json) list"

datatype level = DEBUG | INFO | WARNING | ERROR | EXCEPTION

datatype logarg =
    AStr string
  | AStrs "string list"
  | AJson json

text \<open>
  A log record keeps the level, the message object and the arguments as the logging call
  received them (\<^verbatim>\<open>LOGGER.exception\<close> is level \<open>EXCEPTION\<close>: severity error, with
  the traceback).
\<close>

datatype log_entry = Log level logarg "logarg list"

record run_instances_request =
  ImageId :: string
  MinCount :: nat
  MaxCount :: nat
  InstanceType :: string
  UserData :: string
  SecurityGroupIds :: "string list"
  KeyName :: string

datatype call =
    ListAttachedRolePolicies string
  | DetachRolePolicy string string
  | ListInstanceProfilesForRole string
  | RemoveRoleFromInstanceProfile string string
  | ListRolePolicies string
  | DeleteRolePolicy string string
  | DeleteRole string
  | CreateInstanceProfile string string
  | AddRoleToInstanceProfile string string
  | GetInstanceProfile string
  | DeleteKeyPair string
  | CreateKeyPair string
  | WriteFile string string
  | RunInstances run_instances_request
  | DescribeInstances
  | CreateBucket string string
  | WaitUntilBucketExists string
  | PutBucketPolicy string string
  | GetBucketPolicy string

datatype reply =
    Done
  | Names "string list"
  | Text string
  | Machines "(string \<times> string) list"

datatype event = Ev call "error + reply"

record 'p world =
  provider :: 'p
  trace :: "event list"
  log :: "log_entry list"
  stdout :: "string list list"
  files :: "string \<Rightarrow> string option"
  unwritable :: "string \<Rightarrow> bool"

text \<open>
  \<open>provider\<close> is the state of the cloud account, of a type the methods never look into;
  \<open>trace\<close> is the sequence of provider calls and file writes issued so far, each with what
  it returned or raised; \<open>log\<close> is what was handed to the logger; \<open>stdout\<close> what was
  printed; \<open>files\<close> the local file system and \<open>unwritable\<close> the paths that
  \<^verbatim>\<open>open(path, 'w')\<close> refuses.
\<close>

type_synonym ('p, 'a) action = "'p world \<Rightarrow> (error + 'a) \<times> 'p world"

definition invoke ::
  "call \<Rightarrow> ('a \<Rightarrow> reply) \<Rightarrow> ('p \<Rightarrow> (error + 'a) \<times> 'p) \<Rightarrow> ('p, 'a) action" where
  "invoke c enc f w =
     (case f (provider w) of
        (r, p') \<Rightarrow> (r, w\<lparr>provider := p', trace := trace w @ [Ev c (map_sum id enc r)]\<rparr>))"

definition logger :: "level \<Rightarrow> logarg \<Rightarrow> logarg list \<Rightarrow> 'p world \<Rightarrow> 'p world" where
  "logger l m as w = w\<lparr>log := log w @ [Log l m as]\<rparr>"

definition print :: "string list \<Rightarrow> 'p world \<Rightarrow> 'p world" where
  "print xs w = w\<lparr>stdout := stdout w @ [xs]\<rparr>"

fun for_each :: "('a \<Rightarrow> ('p, unit) action) \<Rightarrow> 'a list \<Rightarrow> ('p, unit) action" where
  "for_each f [] w = (Inr (), w)"
| "for_each f (x # xs) w =
     (case f x w of
        (Inl e, w') \<Rightarrow> (Inl e, w')
      | (Inr u, w') \<Rightarrow> for_each f xs w')"

section \<open>Python's \<^verbatim>\<open>uuid.uuid4\<close> and \<^verbatim>\<open>str\<close> of a UUID\<close>

text \<open>
  \<^verbatim>\<open>uuid.uuid4()\<close> is \<^verbatim>\<open>UUID(bytes=os.urandom(16), version=4)\<close>: the 128 random bits
  are the parameter \<open>r\<close>; the constructor clears and sets the variant and version bits;
  \<^verbatim>\<open>str\<close> prints \<^verbatim>\<open>'%032x' % int\<close> cut 8-4-4-4-12 with dashes.
\<close>

definition uuid4 :: "128 word \<Rightarrow> 128 word" where
  "uuid4 r =
     (let i1 = r AND NOT (push_bit 48 0xc000);
          i2 = i1 OR push_bit 48 0x8000;
          i3 = i2 AND NOT (push_bit 64 0xf000)
      in i3 OR push_bit 76 4)"

definition hex_digit :: "nat \<Rightarrow> char" where
  "hex_digit n = ''0123456789abcdef'' ! (n mod 16)"

definition hex032x :: "128 word \<Rightarrow> string" where
  "hex032x i = map (\<lambda>k. hex_digit (unat (drop_bit (4 * k) i AND 15))) (rev [0..<32])"

definition uuid_str :: "128 word \<Rightarrow> string" where
  "uuid_str i =
     (let hex = hex032x i
      in take 8 hex @ ''-'' @ take 4 (drop 8 hex) @ ''-'' @ take 4 (drop 12 hex) @ ''-''
         @ take 4 (drop 16 hex) @ ''-'' @ drop 20 hex)"

section \<open>Python's \<^verbatim>\<open>json.dumps\<close> and \<^verbatim>\<open>json.loads\<close>\<close>

text \<open>
  The standard-library codec the bucket-policy methods call, for documents built from
  \<^verbatim>\<open>None\<close>, booleans, integers, strings, lists and dictionaries with string keys. A
  dictionary is the list of its items in insertion order. Floating-point numbers are not
  part of \<^typ>\<open>json\<close>, and a text holding one is outside this model
  (\<open>scan_number\<close> gives \<open>None\<close> there), as is a \<^verbatim>\<open>\uXXXX\<close> escape above
  \<^verbatim>\<open>\u00ff\<close>: a character of \<^typ>\<open>string\<close> is a code point below 256.
\<close>

definition hex4 :: "nat \<Rightarrow> string" where
  "hex4 n = [hex_digit (n div 4096), hex_digit (n div 256), hex_digit (n div 16), hex_digit n]"

text \<open>
  \<^verbatim>\<open>ESCAPE_ASCII\<close> with \<^verbatim>\<open>ESCAPE_DCT\<close> (\<^verbatim>\<open>ensure_ascii=True\<close>, the default): backslash,
  double quote and everything outside space..tilde are escaped.
\<close>

definition escape_char :: "char \<Rightarrow> string" where
  "escape_char c =
     (if c = CHR 0x5C then [CHR 0x5C, CHR 0x5C]
      else if c = CHR 0x22 then [CHR 0x5C, CHR 0x22]
      else if c = CHR 0x08 then [CHR 0x5C, CHR ''b'']
      else if c = CHR 0x0C then [CHR 0x5C, CHR ''f'']
      else if c = CHR 0x0A then [CHR 0x5C, CHR ''n'']
      else if c = CHR 0x0D then [CHR 0x5C, CHR ''r'']
      else if c = CHR 0x09 then [CHR 0x5C, CHR ''t'']
      else if (32::nat) \<le> of_char c \<and> of_char c \<le> (126::nat) then [c]
      else CHR 0x5C # CHR ''u'' # hex4 (of_char c))"

definition encode_basestring_ascii :: "string \<Rightarrow> string" where
  "encode_basestring_ascii s = CHR 0x22 # concat (map escape_char s) @ [CHR 0x22]"

fun digits :: "nat \<Rightarrow> string" where
  "digits n =
     (if n < 10 then [char_of (48 + n)]
      else digits (n div 10) @ [char_of (48 + n mod 10)])"

declare digits.simps [simp del]

definition int_repr :: "int \<Rightarrow> string" where
  "int_repr i = (if i < 0 then CHR ''-'' # digits (nat (- i)) else digits (nat i))"

fun join :: "string \<Rightarrow> string list \<Rightarrow> string" where
  "join sep [] = []"
| "join sep [x] = x"
| "join sep (x # y # ys) = x @ sep @ join sep (y # ys)"

text \<open>\<^verbatim>\<open>json.dumps(obj)\<close> with the default separators \<^verbatim>\<open>', '\<close> and \<^verbatim>\<open>': '\<close>.\<close>

primrec json_dumps :: "json \<Rightarrow> string" where
  "json_dumps JNull = ''null''"
| "json_dumps (JBool b) = (if b then ''true'' else ''false'')"
| "json_dumps (JInt i) = int_repr i"
| "json_dumps (JStr s) = encode_basestring_ascii s"
| "json_dumps (JArr xs) = ''['' @ join '', '' (map json_dumps xs) @ '']''"
| "json_dumps (JObj ms) =
     ''{'' @ join '', ''
       (map (\<lambda>(k, s). encode_basestring_ascii k @ '': '' @ s) (map (map_prod id json_dumps) ms))
     @ ''}''"

definition is_ws :: "char \<Rightarrow> bool" where
  "is_ws c = (c = CHR '' '' \<or> c = CHR 0x09 \<or> c = CHR 0x0A \<or> c = CHR 0x0D)"

fun skip_ws :: "string \<Rightarrow> string" where
  "skip_ws [] = []"
| "skip_ws (c # cs) = (if is_ws c then skip_ws cs else c # cs)"


definition hex_val :: "char \<Rightarrow> nat option" where
  "hex_val c =
     (let n = of_char c :: nat
      in if 48 \<le> n \<and> n \<le> 57 then Some (n - 48)
         else if 97 \<le> n \<and> n \<le> 102 then Some (n - 87)
         else if 65 \<le> n \<and> n \<le> 70 then Some (n - 55)
         else None)"

definition hex4_val :: "char \<Rightarrow> char \<Rightarrow> char \<Rightarrow> char \<Rightarrow> nat option" where
  "hex4_val a b c d =
     (case (hex_val a, hex_val b, hex_val c, hex_val d) of
        (Some x, Some y, Some z, Some u) \<Rightarrow> Some (4096 * x + 256 * y + 16 * z + u)
      | _ \<Rightarrow> None)"

text \<open>\<^verbatim>\<open>BACKSLASH\<close>: the one-letter escapes of \<^verbatim>\<open>py_scanstring\<close>.\<close>

definition unescape :: "char \<Rightarrow> char option" where
  "unescape e =
     (if e = CHR 0x22 then Some (CHR 0x22)
      else if e = CHR 0x5C then Some (CHR 0x5C)
      else if e = CHR ''/'' then Some (CHR ''/'')
      else if e = CHR ''b'' then Some (CHR 0x08)
      else if e = CHR ''f'' then Some (CHR 0x0C)
      else if e = CHR ''n'' then Some (CHR 0x0A)
      else if e = CHR ''r'' then Some (CHR 0x0D)
      else if e = CHR ''t'' then Some (CHR 0x09)
      else None)"

definition cons_fst :: "'a \<Rightarrow> ('a list \<times> 'b) option \<Rightarrow> ('a list \<times> 'b) option" where
  "cons_fst x r = (case r of None \<Rightarrow> None | Some (xs, rest) \<Rightarrow> Some (x # xs, rest))"

text \<open>
  \<^verbatim>\<open>py_scanstring\<close> (strict), from the character after the opening quote: the decoded
  string and the text after the closing quote.
\<close>

fun scanstring :: "string \<Rightarrow> (string \<times> string) option" where
  "scanstring [] = None"
| "scanstring (c # cs) =
     (if c = CHR 0x22 then Some ([], cs)
      else if c = CHR 0x5C then
        (case cs of
           [] \<Rightarrow> None
         | e # cs1 \<Rightarrow>
             if e = CHR ''u'' then
               (case cs1 of
                  h1 # h2 # h3 # h4 # cs2 \<Rightarrow>
                    (case hex4_val h1 h2 h3 h4 of
                       None \<Rightarrow> None
                     | Some n \<Rightarrow> if n < 256 then cons_fst (char_of n) (scanstring cs2) else None)
                | _ \<Rightarrow> None)
             else
               (case unescape e of
                  None \<Rightarrow> None
                | Some d \<Rightarrow> cons_fst d (scanstring cs1)))
      else if (of_char c :: nat) < 32 then None
      else cons_fst c (scanstring cs))"







section \<open>The provider's interfaces\<close>

text \<open>
  What boto3 offers to the three classes, as functions on the provider's state. Each
  returns what the call returns or the exception it raises, and the provider's new state.
  Nothing is assumed about them: a theorem about a method holds for every provider.
  \<^verbatim>\<open>role.attached_policies.all()\<close>, \<^verbatim>\<open>role.instance_profiles.all()\<close>,
  \<^verbatim>\<open>role.policies.all()\<close> and \<^verbatim>\<open>ec2.instances.all()\<close> are one listing call each (a
  single page).
\<close>

record 'p s3_api =
  s3_create_bucket :: "string \<Rightarrow> string \<Rightarrow> 'p \<Rightarrow> (error + unit) \<times> 'p"
  s3_wait_until_exists :: "string \<Rightarrow> 'p \<Rightarrow> (error + unit) \<times> 'p"
  s3_put_bucket_policy :: "string \<Rightarrow> string \<Rightarrow> 'p \<Rightarrow> (error + unit) \<times> 'p"
  s3_get_bucket_policy :: "string \<Rightarrow> 'p \<Rightarrow> (error + string) \<times> 'p"

record 'p iam_api =
  iam_list_attached_role_policies :: "string \<Rightarrow> 'p \<Rightarrow> (error + string list) \<times> 'p"
  iam_detach_role_policy :: "string \<Rightarrow> string \<Rightarrow> 'p \<Rightarrow> (error + unit) \<times> 'p"
  iam_list_instance_profiles_for_role :: "string \<Rightarrow> 'p \<Rightarrow> (error + string list) \<times> 'p"
  iam_remove_role_from_instance_profile :: "string \<Rightarrow> string \<Rightarrow> 'p \<Rightarrow> (error + unit) \<times> 'p"
  iam_list_role_policies :: "string \<Rightarrow> 'p \<Rightarrow> (error + string list) \<times> 'p"
  iam_delete_role_policy :: "string \<Rightarrow> string \<Rightarrow> 'p \<Rightarrow> (error + unit) \<times> 'p"
  iam_delete_role :: "string \<Rightarrow> 'p \<Rightarrow> (error + unit) \<times> 'p"
  iam_create_instance_profile :: "string \<Rightarrow> string \<Rightarrow> 'p \<Rightarrow> (error + string) \<times> 'p"
  iam_add_role_to_instance_profile :: "string \<Rightarrow> string \<Rightarrow> 'p \<Rightarrow> (error + unit) \<times> 'p"
  iam_get_instance_profile :: "string \<Rightarrow> 'p \<Rightarrow> (error + string) \<times> 'p"

record 'p ec2_api =
  ec2_delete_key_pair :: "string \<Rightarrow> 'p \<Rightarrow> (error + unit) \<times> 'p"
  ec2_create_key_pair :: "string \<Rightarrow> 'p \<Rightarrow> (error + string) \<times> 'p"
  ec2_create_instances :: "run_instances_request \<Rightarrow> 'p \<Rightarrow> (error + string list) \<times> 'p"
  ec2_instances_all :: "'p \<Rightarrow> (error + (string \<times> string) list) \<times> 'p"

text \<open>
  \<open>ec2_create_key_pair\<close> returns the \<^verbatim>\<open>KeyMaterial\<close> of the response,
  \<open>ec2_create_instances\<close> the ids of the instances launched, \<open>ec2_instances_all\<close> the
  id and the state of every instance of the account, in the order the listing yields them.
\<close>

section \<open>StorageBucket\<close>

record storage_bucket =
  name :: string
  bucketname :: string
  current_region :: string
  s3resource_region :: string

text \<open>
  \<^verbatim>\<open>create_bucket_name\<close>: \<^verbatim>\<open>''.join([bucket_prefix, str(uuid.uuid4())])\<close>; \<open>r\<close> is the
  randomness the call draws.
\<close>

definition create_bucket_name :: "string \<Rightarrow> 128 word \<Rightarrow> string" where
  "create_bucket_name bucket_prefix r = concat [bucket_prefix, uuid_str (uuid4 r)]"

text \<open>
  The constructor: the bucket name is generated here from the literal prefix; the two
  regions are read from the default session (\<^verbatim>\<open>session.region_name\<close>) and from the
  resource's client (\<^verbatim>\<open>s3resource.meta.client.meta.region_name\<close>).
\<close>

definition StorageBucket_init :: "128 word \<Rightarrow> string \<Rightarrow> string \<Rightarrow> storage_bucket" where
  "StorageBucket_init r session_region resource_region =
     \<lparr>storage_bucket.name = ''Storage Bucket'',
      bucketname = create_bucket_name ''sth'' r,
      current_region = session_region,
      s3resource_region = resource_region\<rparr>"

text \<open>
  The attributes \<^verbatim>\<open>__init__\<close> sets on a \<^verbatim>\<open>StorageBucket\<close>; reading any other
  attribute of \<^verbatim>\<open>self\<close> raises \<^verbatim>\<open>AttributeError\<close>.
\<close>

definition StorageBucket_attributes :: "string list" where
  "StorageBucket_attributes =
     [''name'', ''bucketname'', ''LOGGER'', ''client'', ''session'', ''current_region'',
      ''logger'', ''s3resource'', ''bucket'']"

definition StorageBucket_getattr :: "string \<Rightarrow> error + unit" where
  "StorageBucket_getattr a =
     (if a \<in> set StorageBucket_attributes then Inr () else Inl (AttributeError a))"

text \<open>The \<^verbatim>\<open>try\<close> block of \<^verbatim>\<open>create_bucket\<close>; the bucket handle is the bucket's name.\<close>

definition create_bucket_try :: "'p s3_api \<Rightarrow> storage_bucket \<Rightarrow> ('p, string) action" where
  "create_bucket_try api self w =
     (case invoke (CreateBucket (bucketname self) (current_region self)) (\<lambda>u. Done)
             (s3_create_bucket api (bucketname self) (current_region self)) w of
        (Inl e, w1) \<Rightarrow> (Inl e, w1)
      | (Inr u, w1) \<Rightarrow>
          (case invoke (WaitUntilBucketExists (bucketname self)) (\<lambda>u. Done)
                  (s3_wait_until_exists api (bucketname self)) w1 of
             (Inl e, w2) \<Rightarrow> (Inl e, w2)
           | (Inr u, w2) \<Rightarrow>
               (Inr (bucketname self),
                print [bucketname self, current_region self]
                  (logger INFO (AStr ''Created bucket '%s' in region=%s'')
                     [AStr (bucketname self), AStr (s3resource_region self)] w2))))"

text \<open>
  \<^verbatim>\<open>create_bucket\<close>: the \<^verbatim>\<open>except ClientError\<close> clause logs, and for the code
  \<^verbatim>\<open>IllegalLocationConstraintException\<close> evaluates the arguments of the second logging
  call, the first of which reads \<^verbatim>\<open>self.s3resources3\<close>.
\<close>

definition create_bucket :: "'p s3_api \<Rightarrow> storage_bucket \<Rightarrow> ('p, string) action" where
  "create_bucket api self w =
     (case create_bucket_try api self w of
        (Inr bucket_response, w1) \<Rightarrow> (Inr bucket_response, w1)
      | (Inl e, w1) \<Rightarrow>
          (case e of
             ClientError code msg \<Rightarrow>
               (let w2 = logger EXCEPTION (AStr ''Couldn't create bucket named '%s' in region=%s.'')
                           [AStr (bucketname self), AStr (current_region self)] w1
                in if code = ''IllegalLocationConstraintException'' then
                     (case StorageBucket_getattr ''s3resources3'' of
                        Inl e' \<Rightarrow> (Inl e', w2)
                      | Inr u \<Rightarrow>
                          (Inl e,
                           logger ERROR
                             (AStr (''When the session Region is anything other than us-east-1, ''
                                @ ''you must specify a LocationConstraint that matches the ''
                                @ ''session Region. The current session Region is %s and the ''
                                @ ''LocationConstraint Region is %s.''))
                             [AStr (s3resource_region self), AStr (current_region self)] w2))
                   else (Inl e, w2))
           | _ \<Rightarrow> (Inl e, w1)))"



section \<open>IAMAdmin\<close>

record iam_admin =
  name :: string
  path :: string
  region :: string

definition IAMAdmin_init :: "string \<Rightarrow> string \<Rightarrow> iam_admin" where
  "IAMAdmin_init region' path' = \<lparr>iam_admin.name = ''IAM Admin'', path = path', region = region'\<rparr>"

text \<open>
  The \<^verbatim>\<open>try\<close> block of \<^verbatim>\<open>delete_role\<close>: three list comprehensions, each over one
  listing, then \<^verbatim>\<open>role.delete()\<close> and the \<^verbatim>\<open>print\<close>.
\<close>

definition delete_role_try :: "'p iam_api \<Rightarrow> string \<Rightarrow> ('p, unit) action" where
  "delete_role_try api role_name w =
     (let w0 = logger DEBUG (AStr ''Removing Managed Policies from %s'') [AStr role_name] w
      in case invoke (ListAttachedRolePolicies role_name) Names
                (iam_list_attached_role_policies api role_name) w0 of
           (Inl e, w1) \<Rightarrow> (Inl e, w1)
         | (Inr attached_policies, w1) \<Rightarrow>
         (case for_each (\<lambda>arn. invoke (DetachRolePolicy role_name arn) (\<lambda>u. Done)
                                  (iam_detach_role_policy api role_name arn))
                 attached_policies w1 of
           (Inl e, w2) \<Rightarrow> (Inl e, w2)
         | (Inr u, w2) \<Rightarrow>
         (case invoke (ListInstanceProfilesForRole role_name) Names
                 (iam_list_instance_profiles_for_role api role_name)
                 (logger DEBUG (AStr ''Removing role from InstanceProfiles'') [] w2) of
           (Inl e, w3) \<Rightarrow> (Inl e, w3)
         | (Inr instance_profiles, w3) \<Rightarrow>
         (case for_each (\<lambda>profile. invoke (RemoveRoleFromInstanceProfile profile role_name)
                                      (\<lambda>u. Done)
                                      (iam_remove_role_from_instance_profile api profile role_name))
                 instance_profiles w3 of
           (Inl e, w4) \<Rightarrow> (Inl e, w4)
         | (Inr u, w4) \<Rightarrow>
         (case invoke (ListRolePolicies role_name) Names (iam_list_role_policies api role_name)
                 (logger DEBUG (AStr ''Deleting Inline Policies'') [] w4) of
           (Inl e, w5) \<Rightarrow> (Inl e, w5)
         | (Inr policies, w5) \<Rightarrow>
         (case for_each (\<lambda>role_policy. invoke (DeleteRolePolicy role_name role_policy) (\<lambda>u. Done)
                                          (iam_delete_role_policy api role_name role_policy))
                 policies w5 of
           (Inl e, w6) \<Rightarrow> (Inl e, w6)
         | (Inr u, w6) \<Rightarrow>
         (case invoke (DeleteRole role_name) (\<lambda>u. Done) (iam_delete_role api role_name) w6 of
           (Inl e, w7) \<Rightarrow> (Inl e, w7)
         | (Inr u, w7) \<Rightarrow> (Inr (), print [''+ Deleted IAM Role: %s'', role_name] w7))))))))"

definition delete_role :: "'p iam_api \<Rightarrow> string \<Rightarrow> ('p, bool) action" where
  "delete_role api role_name w =
     (case delete_role_try api role_name w of
        (Inr u, w1) \<Rightarrow> (Inr True, w1)
      | (Inl e, w1) \<Rightarrow>
          if is_client_error e then
            (Inl e,
             logger EXCEPTION (AStr ''Error:  %s'') [AStr (repr_error e)]
               (logger EXCEPTION (AStr ''Couldn't delete role named '%s' '') [AStr role_name] w1))
          else (Inl e, w1))"

text \<open>
  \<^verbatim>\<open>create_instance_profile\<close>: the handler logs and does not raise (\<^verbatim>\<open>#raise error\<close>),
  so the method falls off its end and returns \<^verbatim>\<open>None\<close>.
\<close>

definition create_instance_profile ::
  "'p iam_api \<Rightarrow> iam_admin \<Rightarrow> string \<Rightarrow> ('p, string option) action" where
  "create_instance_profile api self profile_name w =
     (case invoke (CreateInstanceProfile profile_name (''/'' @ path self @ ''/'')) Text
             (iam_create_instance_profile api profile_name (''/'' @ path self @ ''/'')) w of
        (Inr profile_arn, w1) \<Rightarrow>
          (Inr (Some profile_arn),
           logger DEBUG (AStr ''Created IAM Instance profile: %s '') [AStr profile_arn] w1)
      | (Inl e, w1) \<Rightarrow>
          if is_client_error e then
            (Inr None,
             logger EXCEPTION (AStr ''Error:  %s'') [AStr (repr_error e)]
               (logger EXCEPTION (AStr ''Couldn't instance profile named '%s'.'')
                  [AStr profile_name] w1))
          else (Inl e, w1))"

text \<open>
  \<^verbatim>\<open>self.LOGGER(...)\<close> calls the logger object itself; \<^verbatim>\<open>logging.Logger\<close> has no
  \<^verbatim>\<open>__call__\<close>, so the call raises \<^verbatim>\<open>TypeError\<close>.
\<close>

definition LOGGER_call :: "logarg \<Rightarrow> logarg list \<Rightarrow> ('p, unit) action" where
  "LOGGER_call m as w = (Inl (TypeError ''Logger object is not callable''), w)"

text \<open>
  Reading a local variable: \<open>None\<close> is a name that no assignment has bound yet.
\<close>

definition local_var :: "string \<Rightarrow> 'a option \<Rightarrow> error + 'a" where
  "local_var x v = (case v of None \<Rightarrow> Inl (UnboundLocalError x) | Some a \<Rightarrow> Inr a)"

text \<open>
  \<^verbatim>\<open>add_role_instance_profile\<close>: \<open>instance_role_profile\<close> is bound only when the
  provider call returns; the handler reads it for its second logging call.
\<close>

definition add_role_instance_profile ::
  "'p iam_api \<Rightarrow> iam_admin \<Rightarrow> string \<Rightarrow> string \<Rightarrow> string \<Rightarrow> ('p, string) action" where
  "add_role_instance_profile api self profile_name profile_arn role_name w =
     (case invoke (AddRoleToInstanceProfile profile_name role_name) (\<lambda>u. Done)
             (iam_add_role_to_instance_profile api profile_name role_name) w of
        (Inr instance_role_profile, w1) \<Rightarrow>
          (case LOGGER_call (AStr '' Added Role to IAM Instance profile: %s '') [AStr profile_arn] w1 of
             (Inl e, w2) \<Rightarrow> (Inl e, w2)
           | (Inr u, w2) \<Rightarrow> (Inr profile_arn, w2))
      | (Inl e, w1) \<Rightarrow>
          if is_client_error e then
            (let w2 = logger EXCEPTION
                        (AStr (''Couldn't Add role named '%s '' @ '' to instance profile: %s  in region=%s.''))
                        [AStr role_name, AStr profile_name, AStr (region self)] w1
             in case local_var ''instance_role_profile'' (None :: unit option) of
                  Inl e' \<Rightarrow> (Inl e', w2)
                | Inr instance_role_profile \<Rightarrow>
                    (Inl e,
                     logger EXCEPTION (AStr ''Error:  %s'') [AStr (repr_error e)]
                       (logger EXCEPTION (AStr ''Response : %s'') [AStr ''None''] w2)))
          else (Inl e, w1))"

definition get_instance_profile ::
  "'p iam_api \<Rightarrow> iam_admin \<Rightarrow> string \<Rightarrow> ('p, string option) action" where
  "get_instance_profile api self profile_name w =
     (case invoke (GetInstanceProfile profile_name) Text
             (iam_get_instance_profile api profile_name) w of
        (Inr profile_arn, w1) \<Rightarrow>
          (Inr (Some profile_arn),
           logger DEBUG (AStr '' Get IAM Instance profile: %s '') [AStr profile_arn] w1)
      | (Inl e, w1) \<Rightarrow>
          if is_client_error e then
            (Inr None,
             logger EXCEPTION (AStr ''Error:  %s'') [AStr (repr_error e)]
               (logger EXCEPTION (AStr ''Couldn't get instance profile named '%s' in region=%s.'')
                  [AStr profile_name, AStr (region self)] w1))
          else (Inl e, w1))"

section \<open>InstanceManagement\<close>

record instance_management =
  name :: string
  region :: string

definition InstanceManagement_init :: "string \<Rightarrow> instance_management" where
  "InstanceManagement_init region' =
     \<lparr>instance_management.name = ''Instance Management'', region = region'\<rparr>"

text \<open>\<^verbatim>\<open>with open(key_file, 'w') as opened_file: opened_file.write(key_pair_out)\<close>\<close>

definition write_file :: "string \<Rightarrow> string \<Rightarrow> ('p, unit) action" where
  "write_file file_name content w =
     (if unwritable w file_name then
        (Inl (OSError file_name),
         w\<lparr>trace := trace w @ [Ev (WriteFile file_name content) (Inl (OSError file_name))]\<rparr>)
      else
        (Inr (),
         w\<lparr>trace := trace w @ [Ev (WriteFile file_name content) (Inr Done)],
           files := (files w)(file_name \<mapsto> content)\<rparr>))"

text \<open>
  The \<^verbatim>\<open>for\<close> loop over the listing: each round logs and rebinds \<open>instance_id\<close>;
  \<open>None\<close> is the name not yet bound.
\<close>

fun scan_instances ::
  "(string \<times> string) list \<Rightarrow> string option \<Rightarrow> 'p world \<Rightarrow> string option \<times> 'p world" where
  "scan_instances [] instance_id w = (instance_id, w)"
| "scan_instances (instance # rest) instance_id w =
     scan_instances rest (Some (fst instance))
       (logger DEBUG (AStr ''Instance id : %s instance state : '')
          [AStr (fst instance), AStr (snd instance)] w)"

text \<open>
  The \<^verbatim>\<open>except ClientError\<close> clause of \<^verbatim>\<open>create_instance\<close>; \<open>instances\<close> is the
  local variable the launch binds, which the first logging call reads.
\<close>

definition create_instance_except ::
  "instance_management \<Rightarrow> error \<Rightarrow> string list option \<Rightarrow> ('p, string) action" where
  "create_instance_except self e instances w =
     (if is_client_error e then
        (case local_var ''instances'' instances of
           Inl e' \<Rightarrow> (Inl e', w)
         | Inr launched \<Rightarrow>
             (Inl e,
              logger EXCEPTION (AStr ''Error:  %s'') [AStr (repr_error e)]
                (logger EXCEPTION (AStr ''Couldn't create EC2 Instance in region=%s.'')
                   [AStr (instance_management.region self)]
                   (logger EXCEPTION (AStrs launched) [] w))))
      else (Inl e, w))"

definition create_instance ::
  "'p ec2_api \<Rightarrow> instance_management \<Rightarrow> string \<Rightarrow> string \<Rightarrow> string \<Rightarrow> string \<Rightarrow> string
     \<Rightarrow> string list \<Rightarrow> ('p, string) action" where
  "create_instance api self key_file key_pair role_arn role_name startup_script security_groups w =
     (case invoke (DeleteKeyPair key_pair) (\<lambda>u. Done) (ec2_delete_key_pair api key_pair) w of
        (Inl e, w1) \<Rightarrow> create_instance_except self e None w1
      | (Inr key_pair_del_resp, w1) \<Rightarrow>
     (case invoke (CreateKeyPair key_pair) Text (ec2_create_key_pair api key_pair) w1 of
        (Inl e, w2) \<Rightarrow> create_instance_except self e None w2
      | (Inr key_pair_out, w2) \<Rightarrow>
     (case write_file key_file key_pair_out w2 of
        (Inl e, w3) \<Rightarrow> create_instance_except self e None w3
      | (Inr u, w3) \<Rightarrow>
     (let request = \<lparr>ImageId = ''ami-032598fcc7e9d1c7a'', MinCount = 1, MaxCount = 1,
                     InstanceType = ''t2.micro'', UserData = startup_script,
                     SecurityGroupIds = security_groups, KeyName = key_pair\<rparr>
      in case invoke (RunInstances request) Names (ec2_create_instances api request) w3 of
        (Inl e, w4) \<Rightarrow> create_instance_except self e None w4
      | (Inr instances, w4) \<Rightarrow>
     (case invoke DescribeInstances Machines (ec2_instances_all api) w4 of
        (Inl e, w5) \<Rightarrow> create_instance_except self e (Some instances) w5
      | (Inr listing, w5) \<Rightarrow>
     (case scan_instances listing None w5 of
        (instance_id, w6) \<Rightarrow>
          (case local_var ''instance_id'' instance_id of
             Inl e \<Rightarrow> (Inl e, w6)
           | Inr i \<Rightarrow> (Inr i, w6))))))))"

section \<open>Fake providers\<close>

text \<open>
  Small in-memory providers, for running the methods on concrete inputs. They follow the
  provider's documented behaviour as far as the methods can observe it: a role with
  attachments cannot be deleted, an instance profile holds one role, a key pair's
  material is handed out once, a bucket keeps the policy text it was given.
\<close>

record fake_s3 =
  s3_region :: string
  s3_buckets :: "string list"
  s3_policies :: "string \<Rightarrow> string option"

definition fake_s3_api :: "fake_s3 s3_api" where
  "fake_s3_api =
     \<lparr>s3_create_bucket = (\<lambda>b loc p.
        if loc \<noteq> s3_region p then
          (Inl (ClientError ''IllegalLocationConstraintException''
                  ''The unspecified location constraint is incompatible''), p)
        else if b \<in> set (s3_buckets p) then
          (Inl (ClientError ''BucketAlreadyOwnedByYou'' b), p)
        else (Inr (), p\<lparr>s3_buckets := s3_buckets p @ [b]\<rparr>)),
      s3_wait_until_exists = (\<lambda>b p.
        if b \<in> set (s3_buckets p) then (Inr (), p) else (Inl (WaiterError b), p)),
      s3_put_bucket_policy = (\<lambda>b text p.
        if b \<in> set (s3_buckets p) then (Inr (), p\<lparr>s3_policies := (s3_policies p)(b \<mapsto> text)\<rparr>)
        else (Inl (ClientError ''NoSuchBucket'' b), p)),
      s3_get_bucket_policy = (\<lambda>b p.
        if b \<in> set (s3_buckets p) then
          (case s3_policies p b of
             None \<Rightarrow> (Inl (ClientError ''NoSuchBucketPolicy'' b), p)
           | Some text \<Rightarrow> (Inr text, p))
        else (Inl (ClientError ''NoSuchBucket'' b), p))\<rparr>"

record fake_iam =
  iam_roles :: "string list"
  iam_attached :: "(string \<times> string) list"
  iam_members :: "(string \<times> string) list"
  iam_inline :: "(string \<times> string) list"
  iam_profiles :: "(string \<times> string) list"

text \<open>
  \<open>iam_attached\<close> pairs a role with a managed policy's ARN, \<open>iam_members\<close> an instance
  profile with the role it holds, \<open>iam_inline\<close> a role with an inline policy's name,
  \<open>iam_profiles\<close> an instance profile's name with its ARN.
\<close>

definition no_such_entity :: "string \<Rightarrow> error" where
  "no_such_entity x = ClientError ''NoSuchEntity'' x"

definition fake_iam_api :: "fake_iam iam_api" where
  "fake_iam_api =
     \<lparr>iam_list_attached_role_policies = (\<lambda>r p.
        if r \<in> set (iam_roles p) then (Inr (map snd (filter (\<lambda>x. fst x = r) (iam_attached p))), p)
        else (Inl (no_such_entity r), p)),
      iam_detach_role_policy = (\<lambda>r arn p.
        if (r, arn) \<in> set (iam_attached p) then
          (Inr (), p\<lparr>iam_attached := filter (\<lambda>x. x \<noteq> (r, arn)) (iam_attached p)\<rparr>)
        else (Inl (no_such_entity arn), p)),
      iam_list_instance_profiles_for_role = (\<lambda>r p.
        if r \<in> set (iam_roles p) then (Inr (map fst (filter (\<lambda>x. snd x = r) (iam_members p))), p)
        else (Inl (no_such_entity r), p)),
      iam_remove_role_from_instance_profile = (\<lambda>prof r p.
        if (prof, r) \<in> set (iam_members p) then
          (Inr (), p\<lparr>iam_members := filter (\<lambda>x. x \<noteq> (prof, r)) (iam_members p)\<rparr>)
        else (Inl (no_such_entity prof), p)),
      iam_list_role_policies = (\<lambda>r p.
        if r \<in> set (iam_roles p) then (Inr (map snd (filter (\<lambda>x. fst x = r) (iam_inline p))), p)
        else (Inl (no_such_entity r), p)),
      iam_delete_role_policy = (\<lambda>r n p.
        if (r, n) \<in> set (iam_inline p) then
          (Inr (), p\<lparr>iam_inline := filter (\<lambda>x. x \<noteq> (r, n)) (iam_inline p)\<rparr>)
        else (Inl (no_such_entity n), p)),
      iam_delete_role = (\<lambda>r p.
        if r \<notin> set (iam_roles p) then (Inl (no_such_entity r), p)
        else if r \<in> fst ` set (iam_attached p) \<or> r \<in> snd ` set (iam_members p)
                \<or> r \<in> fst ` set (iam_inline p) then
          (Inl (ClientError ''DeleteConflict'' r), p)
        else (Inr (), p\<lparr>iam_roles := filter (\<lambda>x. x \<noteq> r) (iam_roles p)\<rparr>)),
      iam_create_instance_profile = (\<lambda>n pth p.
        if n \<in> fst ` set (iam_profiles p) then (Inl (ClientError ''EntityAlreadyExists'' n), p)
        else (Inr (''arn:aws:iam::123456789012:instance-profile'' @ pth @ n),
              p\<lparr>iam_profiles :=
                   iam_profiles p @ [(n, ''arn:aws:iam::123456789012:instance-profile'' @ pth @ n)]\<rparr>)),
      iam_add_role_to_instance_profile = (\<lambda>prof r p.
        if prof \<notin> fst ` set (iam_profiles p) then (Inl (no_such_entity prof), p)
        else if r \<notin> set (iam_roles p) then (Inl (no_such_entity r), p)
        else if prof \<in> fst ` set (iam_members p) then (Inl (ClientError ''LimitExceeded'' prof), p)
        else (Inr (), p\<lparr>iam_members := iam_members p @ [(prof, r)]\<rparr>)),
      iam_get_instance_profile = (\<lambda>n p.
        case map_of (iam_profiles p) n of
          None \<Rightarrow> (Inl (no_such_entity n), p)
        | Some arn \<Rightarrow> (Inr arn, p))\<rparr>"

record fake_ec2 =
  ec2_key_pairs :: "(string \<times> string) list"
  ec2_next_material :: "string list"
  ec2_instances :: "(string \<times> string) list"
  ec2_next_ids :: "string list"
  ec2_groups :: "string list"
  ec2_newest_first :: bool

text \<open>
  \<open>ec2_next_material\<close> and \<open>ec2_next_ids\<close> are the key material and the instance ids
  the provider will generate next; \<open>ec2_instances\<close> is the account's listing, in which
  a new instance is put first or last as \<open>ec2_newest_first\<close> says (the provider
  promises no order).
\<close>

definition fake_ec2_api :: "fake_ec2 ec2_api" where
  "fake_ec2_api =
     \<lparr>ec2_delete_key_pair = (\<lambda>k p.
        (Inr (), p\<lparr>ec2_key_pairs := filter (\<lambda>x. fst x \<noteq> k) (ec2_key_pairs p)\<rparr>)),
      ec2_create_key_pair = (\<lambda>k p.
        if k \<in> fst ` set (ec2_key_pairs p) then (Inl (ClientError ''InvalidKeyPair.Duplicate'' k), p)
        else (case ec2_next_material p of
                [] \<Rightarrow> (Inl (ClientError ''InternalError'' k), p)
              | m # ms \<Rightarrow>
                  (Inr m, p\<lparr>ec2_key_pairs := ec2_key_pairs p @ [(k, m)], ec2_next_material := ms\<rparr>))),
      ec2_create_instances = (\<lambda>req p.
        if KeyName req \<notin> fst ` set (ec2_key_pairs p) then
          (Inl (ClientError ''InvalidKeyPair.NotFound'' (KeyName req)), p)
        else if \<not> set (SecurityGroupIds req) \<subseteq> set (ec2_groups p) then
          (Inl (ClientError ''InvalidGroup.NotFound'' (concat (SecurityGroupIds req))), p)
        else (case ec2_next_ids p of
                [] \<Rightarrow> (Inl (ClientError ''InsufficientInstanceCapacity'' (InstanceType req)), p)
              | i # is \<Rightarrow>
                  (Inr [i],
                   p\<lparr>ec2_instances :=
                        (if ec2_newest_first p then (i, ''pending'') # ec2_instances p
                         else ec2_instances p @ [(i, ''pending'')]),
                     ec2_next_ids := is\<rparr>))),
      ec2_instances_all = (\<lambda>p. (Inr (ec2_instances p), p))\<rparr>"

definition world0 :: "'p \<Rightarrow> 'p world" where
  "world0 p = \<lparr>provider = p, trace = [], log = [], stdout = [], files = Map.empty,
               unwritable = (\<lambda>f. False)\<rparr>"

section \<open>Vocabulary of the statements\<close>

text \<open>
  The provider calls of a complete role teardown, for the managed policies, instance
  profiles and inline policies that the three listings returned: every call succeeds.
\<close>

definition teardown_plan ::
  "string \<Rightarrow> string list \<Rightarrow> string list \<Rightarrow> string list \<Rightarrow> event list" where
  "teardown_plan role_name attached profiles inline =
     [Ev (ListAttachedRolePolicies role_name) (Inr (Names attached))]
     @ map (\<lambda>arn. Ev (DetachRolePolicy role_name arn) (Inr Done)) attached
     @ [Ev (ListInstanceProfilesForRole role_name) (Inr (Names profiles))]
     @ map (\<lambda>p. Ev (RemoveRoleFromInstanceProfile p role_name) (Inr Done)) profiles
     @ [Ev (ListRolePolicies role_name) (Inr (Names inline))]
     @ map (\<lambda>n. Ev (DeleteRolePolicy role_name n) (Inr Done)) inline
     @ [Ev (DeleteRole role_name) (Inr Done)]"

text \<open>
  \<open>aborted plan tr e\<close>: the calls \<open>tr\<close> follow \<open>plan\<close> up to one call, which raised
  \<open>e\<close> instead of returning, and nothing was called after it.
\<close>

definition aborted :: "event list \<Rightarrow> event list \<Rightarrow> error \<Rightarrow> bool" where
  "aborted plan tr e =
     (\<exists>pre c out post. plan = pre @ Ev c out # post \<and> tr = pre @ [Ev c (Inl e)])"

text \<open>
  \<open>call_each f xs\<close>: the provider calls \<open>f x\<close> for the elements of \<open>xs\<close> in order,
  each on the state the one before left, up to the first that fails.
\<close>

fun call_each :: "('a \<Rightarrow> 'p \<Rightarrow> (error + unit) \<times> 'p) \<Rightarrow> 'a list \<Rightarrow> 'p \<Rightarrow> (error + unit) \<times> 'p" where
  "call_each f [] p = (Inr (), p)"
| "call_each f (x # xs) p =
     (case f x p of
        (Inl e, p') \<Rightarrow> (Inl e, p')
      | (Inr u, p') \<Rightarrow> call_each f xs p')"

text \<open>
  The ordered teardown of a role, as the specification words it, on the provider's
  state alone: (1) detach every managed policy attached to the role, (2) remove the role
  from every instance profile that holds it, (3) delete every inline policy of the role,
  (4) delete the role. It yields \<open>True\<close>, and the first failing call ends it with that
  call's error.
\<close>

definition ordered_teardown :: "'p iam_api \<Rightarrow> string \<Rightarrow> 'p \<Rightarrow> (error + bool) \<times> 'p" where
  "ordered_teardown api role_name p =
     (case iam_list_attached_role_policies api role_name p of
        (Inl e, p1) \<Rightarrow> (Inl e, p1)
      | (Inr attached, p1) \<Rightarrow>
     (case call_each (iam_detach_role_policy api role_name) attached p1 of
        (Inl e, p2) \<Rightarrow> (Inl e, p2)
      | (Inr u, p2) \<Rightarrow>
     (case iam_list_instance_profiles_for_role api role_name p2 of
        (Inl e, p3) \<Rightarrow> (Inl e, p3)
      | (Inr profiles, p3) \<Rightarrow>
     (case call_each (\<lambda>profile. iam_remove_role_from_instance_profile api profile role_name)
             profiles p3 of
        (Inl e, p4) \<Rightarrow> (Inl e, p4)
      | (Inr u, p4) \<Rightarrow>
     (case iam_list_role_policies api role_name p4 of
        (Inl e, p5) \<Rightarrow> (Inl e, p5)
      | (Inr inline, p5) \<Rightarrow>
     (case call_each (iam_delete_role_policy api role_name) inline p5 of
        (Inl e, p6) \<Rightarrow> (Inl e, p6)
      | (Inr u, p6) \<Rightarrow>
     (case iam_delete_role api role_name p6 of
        (Inl e, p7) \<Rightarrow> (Inl e, p7)
      | (Inr u, p7) \<Rightarrow> (Inr True, p7))))))))"

text \<open>
  What the provider is asked when a bucket is created: to create the bucket \<open>bucket\<close> with
  the location constraint \<open>location\<close> and, once it has accepted, to wait until the bucket
  exists.
\<close>

definition provider_create_bucket ::
  "'p s3_api \<Rightarrow> string \<Rightarrow> string \<Rightarrow> 'p \<Rightarrow> (error + unit) \<times> 'p" where
  "provider_create_bucket api bucket location p =
     (case s3_create_bucket api bucket location p of
        (Inl e, p1) \<Rightarrow> (Inl e, p1)
      | (Inr u, p1) \<Rightarrow> s3_wait_until_exists api bucket p1)"


text \<open>
  \<open>delim rest\<close>: the text \<open>rest\<close> that follows a value is empty or starts with one of the
  delimiters \<^verbatim>\<open>json.dumps\<close> writes after a value. \<open>item_text\<close> is the text of one
  member of an object.
\<close>

definition delim :: "string \<Rightarrow> bool" where
  "delim rest = (case rest of [] \<Rightarrow> True | c # t \<Rightarrow> c = CHR '','' \<or> c = CHR '']'' \<or> c = CHR ''}'')"

definition item_text :: "string \<times> json \<Rightarrow> string" where
  "item_text kv = encode_basestring_ascii (fst kv) @ '': '' @ json_dumps (snd kv)"

section \<open>Concrete accounts\<close>

definition iam0 :: fake_iam where
  "iam0 =
     \<lparr>iam_roles = [''svc-role''], iam_attached = [], iam_members = [], iam_inline = [],
      iam_profiles =
        [(''svc-profile'', ''arn:aws:iam::123456789012:instance-profile/svc/svc-profile'')]\<rparr>"

definition iam1 :: fake_iam where
  "iam1 =
     \<lparr>iam_roles = [''svc-role''],
      iam_attached = [(''svc-role'', ''arn:aws:iam::123456789012:policy/svc-policy'')],
      iam_members = [(''svc-profile'', ''svc-role'')],
      iam_inline = [(''svc-role'', ''inline-1''), (''svc-role'', ''inline-2'')],
      iam_profiles =
        [(''svc-profile'', ''arn:aws:iam::123456789012:instance-profile/svc/svc-profile'')]\<rparr>"

definition s3_0 :: fake_s3 where
  "s3_0 = \<lparr>s3_region = ''us-east-1'', s3_buckets = [''sth-policies''], s3_policies = Map.empty\<rparr>"

definition ec2_0 :: fake_ec2 where
  "ec2_0 =
     \<lparr>ec2_key_pairs = [(''deploy-key'', ''OLD-MATERIAL'')],
      ec2_next_material = [''NEW-MATERIAL''],
      ec2_instances = [(''i-0aaa'', ''running'')],
      ec2_next_ids = [''i-0bbb''],
      ec2_groups = [''sg-1''],
      ec2_newest_first = True\<rparr>"


text \<open>The request \<^verbatim>\<open>create_instance\<close> sends to launch its instance.\<close>

definition launch_request :: "string \<Rightarrow> string list \<Rightarrow> string \<Rightarrow> run_instances_request" where
  "launch_request startup_script security_groups key_pair =
     \<lparr>ImageId = ''ami-032598fcc7e9d1c7a'', MinCount = 1, MaxCount = 1,
      InstanceType = ''t2.micro'', UserData = startup_script,
      SecurityGroupIds = security_groups, KeyName = key_pair\<rparr>"

definition bucket0 :: storage_bucket where
  "bucket0 = StorageBucket_init 5 ''eu-west-2'' ''eu-west-2''"

text \<open>
  A run of \<^verbatim>\<open>create_instance\<close> in an account that already holds the key pair
  \<^verbatim>\<open>deploy-key\<close> and one running instance.
\<close>

definition run0 :: "(error + string) \<times> fake_ec2 world" where
  "run0 = create_instance fake_ec2_api (InstanceManagement_init ''eu-west-2'') ''key.pem''
            ''deploy-key'' ''arn:aws:iam::123456789012:role/svc/svc-role'' ''svc-role''
            ''#!/bin/sh'' [''sg-1''] (world0 ec2_0)"

text \<open>
  The provider's states along that run: after the deletion of the key pair, after its
  creation, and after the launch.
\<close>

definition ec2_1 :: fake_ec2 where
  "ec2_1 = ec2_0\<lparr>ec2_key_pairs := []\<rparr>"

definition ec2_2 :: fake_ec2 where
  "ec2_2 = ec2_1\<lparr>ec2_key_pairs := [(''deploy-key'', ''NEW-MATERIAL'')], ec2_next_material := []\<rparr>"

definition ec2_3 :: fake_ec2 where
  "ec2_3 = ec2_2\<lparr>ec2_instances := [(''i-0bbb'', ''pending''), (''i-0aaa'', ''running'')],
                  ec2_next_ids := []\<rparr>"

text \<open>A bucket manager whose location constraint is the region of the account \<open>s3_0\<close>.\<close>

definition bucket1 :: storage_bucket where
  "bucket1 = StorageBucket_init 5 ''us-east-1'' ''us-east-1''"

section \<open>Bucket names\<close>

lemma length_hex032x: "length (hex032x i) = 32"
  by (simp add: hex032x_def)

lemma length_uuid_str: "length (uuid_str i) = 36"
  by (simp add: uuid_str_def Let_def length_hex032x)

lemma length_create_bucket_name: "length (create_bucket_name p r) = length p + 36"
  by (simp add: create_bucket_name_def length_uuid_str)

lemma prefix_create_bucket_name: "prefix p (create_bucket_name p r)"
  by (simp add: create_bucket_name_def)

text \<open>
  C3 (the code departs from it): the comment of \<^verbatim>\<open>create_bucket_name\<close> says that a
  bucket name must be between 3 and 63 characters long, and the method checks nothing: it
  appends the 36 characters of a UUID to whatever prefix it is given. For a prefix of 28
  characters the name returned has 64 characters (by \<open>length_create_bucket_name\<close>,
  whatever UUID is drawn).
\<close>

theorem create_bucket_name_too_long:
  "length ''covid-data-analysis-bucket-x'' = 28
   \<and> length (create_bucket_name ''covid-data-analysis-bucket-x'' 0) = 64
   \<and> \<not> length (create_bucket_name ''covid-data-analysis-bucket-x'' 0) \<le> 63"
  by (simp add: length_create_bucket_name)

lemma create_bucket_provider:
  "provider (snd (create_bucket api self w))
     = snd (provider_create_bucket api (bucketname self) (current_region self) (provider w))
   \<and> (fst (create_bucket api self w) = Inr b \<longleftrightarrow>
        b = bucketname self
        \<and> fst (provider_create_bucket api (bucketname self) (current_region self) (provider w))
            = Inr ())"
  by (auto simp: create_bucket_def create_bucket_try_def provider_create_bucket_def invoke_def
      logger_def print_def Let_def StorageBucket_getattr_def
      split: prod.splits sum.splits error.splits)

text \<open>
  C10: a manager built by the constructor operates on the name generated at construction
  from the literal prefix \<^verbatim>\<open>sth\<close> and the UUID drawn then; the caller chooses neither.
  \<^verbatim>\<open>create_bucket\<close> takes no name: what it does to the provider is to request the
  creation of the bucket of that name, with the manager's location constraint, and to wait
  for it, and it returns exactly when the provider did both, with that name. A second call
  on the same manager requests the same name again.
\<close>

theorem create_bucket_targets_stored_name:
  "provider (snd (create_bucket api (StorageBucket_init r sr rr) w))
     = snd (provider_create_bucket api (''sth'' @ uuid_str (uuid4 r)) sr (provider w))
   \<and> (fst (create_bucket api (StorageBucket_init r sr rr) w) = Inr b \<longleftrightarrow>
        b = ''sth'' @ uuid_str (uuid4 r)
        \<and> fst (provider_create_bucket api (''sth'' @ uuid_str (uuid4 r)) sr (provider w)) = Inr ())
   \<and> provider (snd (create_bucket api (StorageBucket_init r sr rr)
                      (snd (create_bucket api (StorageBucket_init r sr rr) w))))
     = snd (provider_create_bucket api (''sth'' @ uuid_str (uuid4 r)) sr
              (snd (provider_create_bucket api (''sth'' @ uuid_str (uuid4 r)) sr (provider w))))"
proof -
  have n: "bucketname (StorageBucket_init r sr rr) = ''sth'' @ uuid_str (uuid4 r)"
    "current_region (StorageBucket_init r sr rr) = sr"
    by (simp_all add: StorageBucket_init_def create_bucket_name_def)
  show ?thesis
    using create_bucket_provider [of api "StorageBucket_init r sr rr" w b]
      create_bucket_provider [of api "StorageBucket_init r sr rr"
        "snd (create_bucket api (StorageBucket_init r sr rr) w)" b]
    unfolding n by simp
qed

theorem create_bucket_targets_stored_name_witness:
  "s3_buckets (provider (snd (create_bucket fake_s3_api bucket1 (world0 s3_0))))
     = [''sth-policies'', ''sth00000000-0000-4000-8000-000000000005'']
   \<and> fst (create_bucket fake_s3_api bucket1 (world0 s3_0))
     = Inr ''sth00000000-0000-4000-8000-000000000005''"
proof -
  have u: "''sth'' @ uuid_str (uuid4 5) = ''sth00000000-0000-4000-8000-000000000005''"
    by code_simp
  have e: "provider_create_bucket fake_s3_api ''sth00000000-0000-4000-8000-000000000005''
      ''us-east-1'' (provider (world0 s3_0))
      = (Inr (), s3_0\<lparr>s3_buckets := [''sth-policies'', ''sth00000000-0000-4000-8000-000000000005'']\<rparr>)"
    by (simp add: provider_create_bucket_def fake_s3_api_def world0_def s3_0_def)
  from create_bucket_targets_stored_name
    [of fake_s3_api 5 "''us-east-1''" "''us-east-1''" "world0 s3_0"
        "''sth00000000-0000-4000-8000-000000000005''", unfolded u e]
  show ?thesis by (simp add: bucket1_def)
qed

section \<open>Role teardown\<close>

lemma trace_logger [simp]: "trace (logger l m as w) = trace w"
  by (simp add: logger_def)

lemma trace_print [simp]: "trace (print xs w) = trace w"
  by (simp add: print_def)

lemma log_print [simp]: "log (print xs w) = log w"
  by (simp add: print_def)

lemma log_logger [simp]: "log (logger l m as w) = log w @ [Log l m as]"
  by (simp add: logger_def)

lemma invoke_ok: "invoke c enc f w = (Inr x, w') \<Longrightarrow> trace w' = trace w @ [Ev c (Inr (enc x))] \<and> log w' = log w"
  by (auto simp: invoke_def split: prod.splits)

lemma invoke_fail: "invoke c enc f w = (Inl e, w') \<Longrightarrow> trace w' = trace w @ [Ev c (Inl e)] \<and> log w' = log w"
  by (auto simp: invoke_def split: prod.splits)

lemma for_each_ok:
  "for_each (\<lambda>x. invoke (c x) (\<lambda>u. Done) (f x)) xs w = (Inr u, w') \<Longrightarrow>
     trace w' = trace w @ map (\<lambda>x. Ev (c x) (Inr Done)) xs \<and> log w' = log w"
proof (induction xs arbitrary: w)
  case Nil
  then show ?case by simp
next
  case (Cons x xs)
  then show ?case
    by (auto split: prod.splits sum.splits dest!: invoke_ok)
qed

lemma for_each_fail:
  "for_each (\<lambda>x. invoke (c x) (\<lambda>u. Done) (f x)) xs w = (Inl e, w') \<Longrightarrow>
     \<exists>ys x zs. xs = ys @ x # zs
        \<and> trace w' = trace w @ map (\<lambda>x. Ev (c x) (Inr Done)) ys @ [Ev (c x) (Inl e)]
        \<and> log w' = log w"
proof (induction xs arbitrary: w)
  case Nil
  then show ?case by simp
next
  case (Cons x xs)
  obtain r w1 where step: "invoke (c x) (\<lambda>u. Done) (f x) w = (r, w1)"
    by (cases "invoke (c x) (\<lambda>u. Done) (f x) w")
  show ?case
  proof (cases r)
    case (Inl e1)
    with step Cons.prems have "e1 = e" "w1 = w'" by auto
    with step Inl have "trace w' = trace w @ [Ev (c x) (Inl e)] \<and> log w' = log w"
      using invoke_fail by blast
    then have "x # xs = [] @ x # xs
        \<and> trace w' = trace w @ map (\<lambda>x. Ev (c x) (Inr Done)) [] @ [Ev (c x) (Inl e)]
        \<and> log w' = log w" by simp
    then show ?thesis by blast
  next
    case (Inr u)
    with step Cons.prems have rest: "for_each (\<lambda>x. invoke (c x) (\<lambda>u. Done) (f x)) xs w1 = (Inl e, w')"
      by simp
    from step Inr have t1: "trace w1 = trace w @ [Ev (c x) (Inr Done)]" "log w1 = log w"
      using invoke_ok by fastforce+
    from Cons.IH [OF rest] obtain ys y zs where
      "xs = ys @ y # zs"
      "trace w' = trace w1 @ map (\<lambda>x. Ev (c x) (Inr Done)) ys @ [Ev (c y) (Inl e)]"
      "log w' = log w1" by blast
    with t1 have "x # xs = (x # ys) @ y # zs
        \<and> trace w' = trace w @ map (\<lambda>x. Ev (c x) (Inr Done)) (x # ys) @ [Ev (c y) (Inl e)]
        \<and> log w' = log w" by simp
    then show ?thesis by blast
  qed
qed

lemma aborted_head: "aborted (Ev c out # post) [Ev c (Inl e)] e"
  unfolding aborted_def by (rule exI [of _ "[]"]) auto

lemma aborted_append_left: "aborted plan tr e \<Longrightarrow> aborted (evs @ plan) (evs @ tr) e"
  unfolding aborted_def
proof -
  assume "\<exists>pre c out post. plan = pre @ Ev c out # post \<and> tr = pre @ [Ev c (Inl e)]"
  then obtain pre c out post where "plan = pre @ Ev c out # post" "tr = pre @ [Ev c (Inl e)]" by blast
  then have "evs @ plan = (evs @ pre) @ Ev c out # post \<and> evs @ tr = (evs @ pre) @ [Ev c (Inl e)]" by simp
  then show "\<exists>pre c out post. evs @ plan = pre @ Ev c out # post \<and> evs @ tr = pre @ [Ev c (Inl e)]" by blast
qed

lemma aborted_cons: "aborted plan tr e \<Longrightarrow> aborted (ev # plan) (ev # tr) e"
  using aborted_append_left [of plan tr e "[ev]"] by simp

lemma aborted_map:
  "aborted (map (\<lambda>x. Ev (c x) (Inr Done)) (ys @ x # zs) @ post)
           (map (\<lambda>x. Ev (c x) (Inr Done)) ys @ [Ev (c x) (Inl e)]) e"
  unfolding aborted_def
  by (rule exI [of _ "map (\<lambda>x. Ev (c x) (Inr Done)) ys"]) auto

lemmas aborted_intros = aborted_cons aborted_append_left aborted_head

lemma ab1:
  "\<exists>ps profs pols. aborted (teardown_plan rn ps profs pols)
      [Ev (ListAttachedRolePolicies rn) (Inl e)] e"
  by (rule exI [of _ "[]"], rule exI [of _ "[]"], rule exI [of _ "[]"])
     (simp add: teardown_plan_def aborted_head)

lemma ab2:
  "\<exists>ps profs pols. aborted (teardown_plan rn ps profs pols)
      (Ev (ListAttachedRolePolicies rn) (Inr (Names (ys @ a # zs)))
       # map (\<lambda>arn. Ev (DetachRolePolicy rn arn) (Inr Done)) ys
       @ [Ev (DetachRolePolicy rn a) (Inl e)]) e"
  by (rule exI [of _ "ys @ a # zs"], rule exI [of _ "[]"], rule exI [of _ "[]"])
     (simp add: teardown_plan_def, intro aborted_intros)

lemma ab3:
  "\<exists>ps profs pols. aborted (teardown_plan rn ps profs pols)
      (Ev (ListAttachedRolePolicies rn) (Inr (Names xs))
       # map (\<lambda>arn. Ev (DetachRolePolicy rn arn) (Inr Done)) xs
       @ [Ev (ListInstanceProfilesForRole rn) (Inl e)]) e"
  by (rule exI [of _ xs], rule exI [of _ "[]"], rule exI [of _ "[]"])
     (simp add: teardown_plan_def, intro aborted_intros)

lemma ab4:
  "\<exists>ps profs pols. aborted (teardown_plan rn ps profs pols)
      (Ev (ListAttachedRolePolicies rn) (Inr (Names xs))
       # map (\<lambda>arn. Ev (DetachRolePolicy rn arn) (Inr Done)) xs
       @ Ev (ListInstanceProfilesForRole rn) (Inr (Names (ys @ a # zs)))
       # map (\<lambda>p. Ev (RemoveRoleFromInstanceProfile p rn) (Inr Done)) ys
       @ [Ev (RemoveRoleFromInstanceProfile a rn) (Inl e)]) e"
  by (rule exI [of _ xs], rule exI [of _ "ys @ a # zs"], rule exI [of _ "[]"])
     (simp add: teardown_plan_def, intro aborted_intros)

lemma ab5:
  "\<exists>ps profs pols. aborted (teardown_plan rn ps profs pols)
      (Ev (ListAttachedRolePolicies rn) (Inr (Names xs))
       # map (\<lambda>arn. Ev (DetachRolePolicy rn arn) (Inr Done)) xs
       @ Ev (ListInstanceProfilesForRole rn) (Inr (Names qs))
       # map (\<lambda>p. Ev (RemoveRoleFromInstanceProfile p rn) (Inr Done)) qs
       @ [Ev (ListRolePolicies rn) (Inl e)]) e"
  by (rule exI [of _ xs], rule exI [of _ qs], rule exI [of _ "[]"])
     (simp add: teardown_plan_def, intro aborted_intros)

lemma ab6:
  "\<exists>ps profs pols. aborted (teardown_plan rn ps profs pols)
      (Ev (ListAttachedRolePolicies rn) (Inr (Names xs))
       # map (\<lambda>arn. Ev (DetachRolePolicy rn arn) (Inr Done)) xs
       @ Ev (ListInstanceProfilesForRole rn) (Inr (Names qs))
       # map (\<lambda>p. Ev (RemoveRoleFromInstanceProfile p rn) (Inr Done)) qs
       @ Ev (ListRolePolicies rn) (Inr (Names (ys @ a # zs)))
       # map (\<lambda>n. Ev (DeleteRolePolicy rn n) (Inr Done)) ys
       @ [Ev (DeleteRolePolicy rn a) (Inl e)]) e"
  by (rule exI [of _ xs], rule exI [of _ qs], rule exI [of _ "ys @ a # zs"])
     (simp add: teardown_plan_def, intro aborted_intros)

lemma ab7:
  "\<exists>ps profs pols. aborted (teardown_plan rn ps profs pols)
      (Ev (ListAttachedRolePolicies rn) (Inr (Names xs))
       # map (\<lambda>arn. Ev (DetachRolePolicy rn arn) (Inr Done)) xs
       @ Ev (ListInstanceProfilesForRole rn) (Inr (Names qs))
       # map (\<lambda>p. Ev (RemoveRoleFromInstanceProfile p rn) (Inr Done)) qs
       @ Ev (ListRolePolicies rn) (Inr (Names ns))
       # map (\<lambda>n. Ev (DeleteRolePolicy rn n) (Inr Done)) ns
       @ [Ev (DeleteRole rn) (Inl e)]) e"
  by (rule exI [of _ xs], rule exI [of _ qs], rule exI [of _ ns])
     (simp add: teardown_plan_def, intro aborted_intros)

lemma ok8:
  "\<exists>ps profs pols.
      Ev (ListAttachedRolePolicies rn) (Inr (Names xs))
       # map (\<lambda>arn. Ev (DetachRolePolicy rn arn) (Inr Done)) xs
       @ Ev (ListInstanceProfilesForRole rn) (Inr (Names qs))
       # map (\<lambda>p. Ev (RemoveRoleFromInstanceProfile p rn) (Inr Done)) qs
       @ Ev (ListRolePolicies rn) (Inr (Names ns))
       # map (\<lambda>n. Ev (DeleteRolePolicy rn n) (Inr Done)) ns
       @ [Ev (DeleteRole rn) (Inr Done)] = teardown_plan rn ps profs pols"
  by (rule exI [of _ xs], rule exI [of _ qs], rule exI [of _ ns])
     (simp add: teardown_plan_def)

lemma delete_role_try_trace:
  assumes "delete_role_try api rn w = (r, w')"
  shows "\<exists>ps profs pols tr. trace w' = trace w @ tr \<and>
           (case r of Inr u \<Rightarrow> tr = teardown_plan rn ps profs pols
                    | Inl e \<Rightarrow> aborted (teardown_plan rn ps profs pols) tr e)"
  using assms unfolding delete_role_try_def Let_def
  by (auto split: prod.splits sum.splits dest!: invoke_ok invoke_fail for_each_ok for_each_fail
      intro: ab1 ab2 ab3 ab4 ab5 ab6 ab7 ok8)

lemma provider_logger [simp]: "provider (logger l m as w) = provider w"
  by (simp add: logger_def)

lemma provider_print [simp]: "provider (print xs w) = provider w"
  by (simp add: print_def)

lemma invoke_provider:
  "invoke c enc f w = (r, w') \<Longrightarrow> f (provider w) = (r, provider w')"
  by (auto simp: invoke_def split: prod.splits)

lemma for_each_provider:
  "for_each (\<lambda>x. invoke (c x) (\<lambda>u. Done) (f x)) xs w = (r, w') \<Longrightarrow>
     call_each f xs (provider w) = (r, provider w')"
proof (induction xs arbitrary: w)
  case Nil
  then show ?case by auto
next
  case (Cons x xs)
  obtain r1 w1 where s: "invoke (c x) (\<lambda>u. Done) (f x) w = (r1, w1)"
    by (cases "invoke (c x) (\<lambda>u. Done) (f x) w")
  from invoke_provider [OF s] have p: "f x (provider w) = (r1, provider w1)" .
  show ?case
  proof (cases r1)
    case (Inl e)
    with Cons.prems s p show ?thesis by auto
  next
    case (Inr u)
    with Cons.prems s have "for_each (\<lambda>x. invoke (c x) (\<lambda>u. Done) (f x)) xs w1 = (r, w')" by simp
    from Cons.IH [OF this] p Inr show ?thesis by simp
  qed
qed

lemma delete_role_try_provider:
  assumes "delete_role_try api rn w = (r, w')"
  shows "ordered_teardown api rn (provider w) = (map_sum id (\<lambda>u. True) r, provider w')"
  using assms unfolding delete_role_try_def ordered_teardown_def Let_def
  by (auto split: prod.splits sum.splits dest!: invoke_provider for_each_provider)

lemma invoke_both_ok:
  "invoke c enc f w = (Inr x, w') \<Longrightarrow>
     f (provider w) = (Inr x, provider w') \<and> trace w' = trace w @ [Ev c (Inr (enc x))]"
  by (auto simp: invoke_def split: prod.splits)

lemma for_each_both_ok:
  "for_each (\<lambda>x. invoke (c x) (\<lambda>u. Done) (f x)) xs w = (Inr u, w') \<Longrightarrow>
     call_each f xs (provider w) = (Inr (), provider w')
     \<and> trace w' = trace w @ map (\<lambda>x. Ev (c x) (Inr Done)) xs"
  using for_each_provider [of c f xs w "Inr u" w'] for_each_ok [of c f xs w u w'] by simp

lemma delete_role_try_success:
  assumes "delete_role_try api rn w = (Inr u, w')"
  shows "\<exists>ps p1 p2 profs p3 p4 pols p5 p6.
       iam_list_attached_role_policies api rn (provider w) = (Inr ps, p1)
     \<and> call_each (iam_detach_role_policy api rn) ps p1 = (Inr (), p2)
     \<and> iam_list_instance_profiles_for_role api rn p2 = (Inr profs, p3)
     \<and> call_each (\<lambda>profile. iam_remove_role_from_instance_profile api profile rn) profs p3
          = (Inr (), p4)
     \<and> iam_list_role_policies api rn p4 = (Inr pols, p5)
     \<and> call_each (iam_delete_role_policy api rn) pols p5 = (Inr (), p6)
     \<and> iam_delete_role api rn p6 = (Inr (), provider w')
     \<and> trace w' = trace w @ teardown_plan rn ps profs pols"
proof -
  let ?w0 = "logger DEBUG (AStr ''Removing Managed Policies from %s'') [AStr rn] w"
  from assms obtain ps w1 where
    s1: "invoke (ListAttachedRolePolicies rn) Names (iam_list_attached_role_policies api rn) ?w0
           = (Inr ps, w1)"
    unfolding delete_role_try_def Let_def by (auto split: prod.splits sum.splits)
  from assms s1 obtain w2 where
    s2: "for_each (\<lambda>arn. invoke (DetachRolePolicy rn arn) (\<lambda>u. Done)
                        (iam_detach_role_policy api rn arn)) ps w1 = (Inr (), w2)"
    unfolding delete_role_try_def Let_def by (auto split: prod.splits sum.splits)
  from assms s1 s2 obtain profs w3 where
    s3: "invoke (ListInstanceProfilesForRole rn) Names
           (iam_list_instance_profiles_for_role api rn)
           (logger DEBUG (AStr ''Removing role from InstanceProfiles'') [] w2) = (Inr profs, w3)"
    unfolding delete_role_try_def Let_def by (auto split: prod.splits sum.splits)
  from assms s1 s2 s3 obtain w4 where
    s4: "for_each (\<lambda>profile. invoke (RemoveRoleFromInstanceProfile profile rn) (\<lambda>u. Done)
                        (iam_remove_role_from_instance_profile api profile rn)) profs w3
           = (Inr (), w4)"
    unfolding delete_role_try_def Let_def by (auto split: prod.splits sum.splits)
  from assms s1 s2 s3 s4 obtain pols w5 where
    s5: "invoke (ListRolePolicies rn) Names (iam_list_role_policies api rn)
           (logger DEBUG (AStr ''Deleting Inline Policies'') [] w4) = (Inr pols, w5)"
    unfolding delete_role_try_def Let_def by (auto split: prod.splits sum.splits)
  from assms s1 s2 s3 s4 s5 obtain w6 where
    s6: "for_each (\<lambda>role_policy. invoke (DeleteRolePolicy rn role_policy) (\<lambda>u. Done)
                        (iam_delete_role_policy api rn role_policy)) pols w5 = (Inr (), w6)"
    unfolding delete_role_try_def Let_def by (auto split: prod.splits sum.splits)
  from assms s1 s2 s3 s4 s5 s6 obtain w7 where
    s7: "invoke (DeleteRole rn) (\<lambda>u. Done) (iam_delete_role api rn) w6 = (Inr (), w7)"
    and w': "w' = print [''+ Deleted IAM Role: %s'', rn] w7"
    unfolding delete_role_try_def Let_def by (auto split: prod.splits sum.splits)
  note a1 = invoke_both_ok [OF s1] and a2 = for_each_both_ok [OF s2]
    and a3 = invoke_both_ok [OF s3] and a4 = for_each_both_ok [OF s4]
    and a5 = invoke_both_ok [OF s5] and a6 = for_each_both_ok [OF s6]
    and a7 = invoke_both_ok [OF s7]
  have "iam_list_attached_role_policies api rn (provider w) = (Inr ps, provider w1)
     \<and> call_each (iam_detach_role_policy api rn) ps (provider w1) = (Inr (), provider w2)
     \<and> iam_list_instance_profiles_for_role api rn (provider w2) = (Inr profs, provider w3)
     \<and> call_each (\<lambda>profile. iam_remove_role_from_instance_profile api profile rn) profs
          (provider w3) = (Inr (), provider w4)
     \<and> iam_list_role_policies api rn (provider w4) = (Inr pols, provider w5)
     \<and> call_each (iam_delete_role_policy api rn) pols (provider w5) = (Inr (), provider w6)
     \<and> iam_delete_role api rn (provider w6) = (Inr (), provider w')
     \<and> trace w' = trace w @ teardown_plan rn ps profs pols"
    using a1 a2 a3 a4 a5 a6 a7 w' by (simp add: teardown_plan_def)
  then show ?thesis by blast
qed

lemma teardown_iam1:
  "ordered_teardown fake_iam_api ''svc-role'' iam1
     = (Inr True, iam1\<lparr>iam_roles := [], iam_attached := [], iam_members := [], iam_inline := []\<rparr>)"
  by (simp add: ordered_teardown_def fake_iam_api_def iam1_def)

text \<open>
  C1: whatever the provider does, what \<^verbatim>\<open>delete_role\<close> does to it is the ordered
  teardown: its result and the provider's final state are those of \<open>ordered_teardown\<close>
  on the provider's initial state. When it returns, it returns \<^verbatim>\<open>True\<close>, and the
  provider has listed the managed policies and detached each, then listed the instance
  profiles and removed the role from each, then listed the inline policies and deleted
  each, and then deleted the role, every call on the state the one before left; these are
  all the calls made. When it raises \<open>e\<close>, \<open>e\<close> is the error of the first provider call
  that failed, and the calls made are that sequence up to the failing call, which is the
  last one.
\<close>

theorem delete_role_ordered_teardown:
  assumes "delete_role api role_name w = (r, w')"
  shows "ordered_teardown api role_name (provider w) = (r, provider w')
     \<and> (case r of
          Inr b \<Rightarrow>
            b \<and> (\<exists>attached p1 p2 profiles p3 p4 inline p5 p6.
                 iam_list_attached_role_policies api role_name (provider w) = (Inr attached, p1)
               \<and> call_each (iam_detach_role_policy api role_name) attached p1 = (Inr (), p2)
               \<and> iam_list_instance_profiles_for_role api role_name p2 = (Inr profiles, p3)
               \<and> call_each (\<lambda>profile. iam_remove_role_from_instance_profile api profile role_name)
                    profiles p3 = (Inr (), p4)
               \<and> iam_list_role_policies api role_name p4 = (Inr inline, p5)
               \<and> call_each (iam_delete_role_policy api role_name) inline p5 = (Inr (), p6)
               \<and> iam_delete_role api role_name p6 = (Inr (), provider w')
               \<and> trace w' = trace w @ teardown_plan role_name attached profiles inline)
        | Inl e \<Rightarrow>
            (\<exists>attached profiles inline tr.
                 trace w' = trace w @ tr
               \<and> aborted (teardown_plan role_name attached profiles inline) tr e))"
proof -
  obtain r0 w0 where t: "delete_role_try api role_name w = (r0, w0)"
    by (cases "delete_role_try api role_name w")
  from assms t have rel: "r = map_sum id (\<lambda>u. True) r0" "provider w' = provider w0"
    "trace w' = trace w0"
    by (auto simp: delete_role_def split: sum.splits if_splits)
  from delete_role_try_provider [OF t] rel
  have A: "ordered_teardown api role_name (provider w) = (r, provider w')" by simp
  show ?thesis
  proof (cases r0)
    case (Inl e)
    from delete_role_try_trace [OF t] Inl rel
    have "\<exists>attached profiles inline tr. trace w' = trace w @ tr
        \<and> aborted (teardown_plan role_name attached profiles inline) tr e"
      by auto
    with A Inl rel show ?thesis by simp
  next
    case (Inr u)
    with t have "delete_role_try api role_name w = (Inr u, w0)" by simp
    from delete_role_try_success [OF this] rel
    have "\<exists>attached p1 p2 profiles p3 p4 inline p5 p6.
                 iam_list_attached_role_policies api role_name (provider w) = (Inr attached, p1)
               \<and> call_each (iam_detach_role_policy api role_name) attached p1 = (Inr (), p2)
               \<and> iam_list_instance_profiles_for_role api role_name p2 = (Inr profiles, p3)
               \<and> call_each (\<lambda>profile. iam_remove_role_from_instance_profile api profile role_name)
                    profiles p3 = (Inr (), p4)
               \<and> iam_list_role_policies api role_name p4 = (Inr inline, p5)
               \<and> call_each (iam_delete_role_policy api role_name) inline p5 = (Inr (), p6)
               \<and> iam_delete_role api role_name p6 = (Inr (), provider w')
               \<and> trace w' = trace w @ teardown_plan role_name attached profiles inline"
      by simp
    with A Inr rel show ?thesis by simp
  qed
qed

theorem delete_role_ordered_teardown_witness:
  "delete_role fake_iam_api ''svc-role'' (world0 iam1)
     = (Inr True, snd (delete_role fake_iam_api ''svc-role'' (world0 iam1)))
   \<and> provider (snd (delete_role fake_iam_api ''svc-role'' (world0 iam1)))
       = iam1\<lparr>iam_roles := [], iam_attached := [], iam_members := [], iam_inline := []\<rparr>
   \<and> trace (snd (delete_role fake_iam_api ''svc-role'' (world0 iam1)))
       = teardown_plan ''svc-role'' [''arn:aws:iam::123456789012:policy/svc-policy'']
           [''svc-profile''] [''inline-1'', ''inline-2'']"
proof -
  let ?run = "delete_role fake_iam_api ''svc-role'' (world0 iam1)"
  have ok: "fst ?run = Inr True"
    by (simp add: delete_role_def delete_role_try_def invoke_def logger_def print_def
        fake_iam_api_def iam1_def world0_def Let_def)
  then have run: "?run = (Inr True, snd ?run)" by (simp add: prod_eq_iff)
  have tr: "trace (snd ?run) = teardown_plan ''svc-role''
      [''arn:aws:iam::123456789012:policy/svc-policy''] [''svc-profile''] [''inline-1'', ''inline-2'']"
    by (simp add: delete_role_def delete_role_try_def invoke_def logger_def print_def
        fake_iam_api_def iam1_def world0_def Let_def teardown_plan_def)
  from delete_role_ordered_teardown [OF run]
  have "ordered_teardown fake_iam_api ''svc-role'' (provider (world0 iam1))
      = (Inr True, provider (snd ?run))" by simp
  then have "provider (snd ?run)
      = iam1\<lparr>iam_roles := [], iam_attached := [], iam_members := [], iam_inline := []\<rparr>"
    by (simp add: world0_def teardown_iam1)
  with run tr show ?thesis by simp
qed

section \<open>Instance profiles\<close>

lemma add_role_instance_profile_never_returns:
  "fst (add_role_instance_profile api self profile_name profile_arn role_name w) \<noteq> Inr x"
  by (auto simp: add_role_instance_profile_def invoke_def LOGGER_call_def local_var_def Let_def
      split: prod.splits sum.splits)

text \<open>
  C4 (the code departs from it): in an account where the profile exists and holds no role,
  the provider accepts the call and adds the role, and \<^verbatim>\<open>add_role_instance_profile\<close>
  then raises \<^verbatim>\<open>TypeError\<close> at \<^verbatim>\<open>self.LOGGER(...)\<close> instead of returning the profile
  ARN.
\<close>

theorem add_role_instance_profile_raises_on_success:
  "add_role_instance_profile fake_iam_api (IAMAdmin_init ''eu-west-2'' ''svc'') ''svc-profile''
      ''arn:aws:iam::123456789012:instance-profile/svc/svc-profile'' ''svc-role'' (world0 iam0)
   = (Inl (TypeError ''Logger object is not callable''),
      (world0 (iam0\<lparr>iam_members := [(''svc-profile'', ''svc-role'')]\<rparr>))
        \<lparr>trace := [Ev (AddRoleToInstanceProfile ''svc-profile'' ''svc-role'') (Inr Done)]\<rparr>)"
  by (simp add: add_role_instance_profile_def fake_iam_api_def invoke_def world0_def iam0_def
      LOGGER_call_def)

text \<open>
  C5: when the provider raises a \<^verbatim>\<open>ClientError\<close> inside \<^verbatim>\<open>create_instance_profile\<close> or
  \<^verbatim>\<open>get_instance_profile\<close>, the method does not raise: it returns \<^verbatim>\<open>None\<close>.
\<close>

theorem instance_profile_errors_swallowed:
  "(is_client_error e1 \<and>
      fst (iam_create_instance_profile api n1 (''/'' @ path self @ ''/'') (provider w)) = Inl e1
    \<longrightarrow> fst (create_instance_profile api self n1 w) = Inr None)
   \<and> (is_client_error e2 \<and> fst (iam_get_instance_profile api n2 (provider w)) = Inl e2
    \<longrightarrow> fst (get_instance_profile api self n2 w) = Inr None)"
  by (auto simp: create_instance_profile_def get_instance_profile_def invoke_def
      split: prod.splits sum.splits)

theorem instance_profile_errors_swallowed_witness:
  "is_client_error (ClientError ''EntityAlreadyExists'' ''svc-profile'')
   \<and> fst (iam_create_instance_profile fake_iam_api ''svc-profile''
            (''/'' @ path (IAMAdmin_init ''eu-west-2'' ''svc'') @ ''/'') (provider (world0 iam0)))
       = Inl (ClientError ''EntityAlreadyExists'' ''svc-profile'')
   \<and> fst (create_instance_profile fake_iam_api (IAMAdmin_init ''eu-west-2'' ''svc'')
            ''svc-profile'' (world0 iam0)) = Inr None
   \<and> is_client_error (ClientError ''NoSuchEntity'' ''missing'')
   \<and> fst (iam_get_instance_profile fake_iam_api ''missing'' (provider (world0 iam0)))
       = Inl (ClientError ''NoSuchEntity'' ''missing'')
   \<and> fst (get_instance_profile fake_iam_api (IAMAdmin_init ''eu-west-2'' ''svc'') ''missing''
            (world0 iam0)) = Inr None"
proof -
  have a: "is_client_error (ClientError ''EntityAlreadyExists'' ''svc-profile'')
     \<and> fst (iam_create_instance_profile fake_iam_api ''svc-profile''
            (''/'' @ path (IAMAdmin_init ''eu-west-2'' ''svc'') @ ''/'') (provider (world0 iam0)))
       = Inl (ClientError ''EntityAlreadyExists'' ''svc-profile'')"
    by (simp add: fake_iam_api_def world0_def iam0_def IAMAdmin_init_def)
  have b: "is_client_error (ClientError ''NoSuchEntity'' ''missing'')
     \<and> fst (iam_get_instance_profile fake_iam_api ''missing'' (provider (world0 iam0)))
       = Inl (ClientError ''NoSuchEntity'' ''missing'')"
    by (simp add: fake_iam_api_def world0_def iam0_def no_such_entity_def)
  from a b instance_profile_errors_swallowed
    [of "ClientError ''EntityAlreadyExists'' ''svc-profile''" fake_iam_api "''svc-profile''"
        "IAMAdmin_init ''eu-west-2'' ''svc''" "world0 iam0"
        "ClientError ''NoSuchEntity'' ''missing''" "''missing''"]
  show ?thesis by blast
qed

section \<open>Bucket creation in the wrong region\<close>

lemma bucketname_bucket0: "bucketname bucket0 = ''sth00000000-0000-4000-8000-000000000005''"
  by code_simp

text \<open>
  C6 (the code departs from it): the session's region is \<^verbatim>\<open>eu-west-2\<close> and the
  provider answers \<^verbatim>\<open>IllegalLocationConstraintException\<close>. \<^verbatim>\<open>create_bucket\<close> logs its
  first message and then raises \<^verbatim>\<open>AttributeError\<close> for \<^verbatim>\<open>self.s3resources3\<close>: the hint
  is never logged and the provider's error is not the one raised.
\<close>

theorem create_bucket_region_mismatch_raises_attribute_error:
  "fst (create_bucket fake_s3_api bucket0 (world0 s3_0)) = Inl (AttributeError ''s3resources3'')
   \<and> trace (snd (create_bucket fake_s3_api bucket0 (world0 s3_0)))
       = [Ev (CreateBucket (bucketname bucket0) ''eu-west-2'')
            (Inl (ClientError ''IllegalLocationConstraintException''
                    ''The unspecified location constraint is incompatible''))]
   \<and> log (snd (create_bucket fake_s3_api bucket0 (world0 s3_0)))
       = [Log EXCEPTION (AStr ''Couldn't create bucket named '%s' in region=%s.'')
            [AStr (bucketname bucket0), AStr ''eu-west-2'']]"
  by (simp add: create_bucket_def create_bucket_try_def fake_s3_api_def invoke_def world0_def
      s3_0_def bucket0_def StorageBucket_init_def StorageBucket_getattr_def
      StorageBucket_attributes_def logger_def)

section \<open>Instance creation\<close>

lemma files_logger [simp]: "files (logger l m as w) = files w"
  by (simp add: logger_def)

lemma invoke_frame:
  "invoke c enc f w = (r, w') \<Longrightarrow>
     trace w' = trace w @ [Ev c (map_sum id enc r)] \<and> log w' = log w \<and> files w' = files w
     \<and> unwritable w' = unwritable w"
  by (auto simp: invoke_def split: prod.splits)

lemma scan_instances_result:
  "scan_instances listing acc w = (r, w') \<Longrightarrow>
     r = (if listing = [] then acc else Some (fst (last listing)))
     \<and> trace w' = trace w \<and> files w' = files w"
  by (induction listing arbitrary: acc w) (auto split: if_splits)

lemma write_file_frame:
  "write_file f c w = (r, w') \<Longrightarrow>
     trace w' = trace w @ [Ev (WriteFile f c) (map_sum id (\<lambda>u. Done) r)]
     \<and> (case r of Inl e \<Rightarrow> files w' = files w | Inr u \<Rightarrow> files w' = (files w)(f \<mapsto> c))"
  by (auto simp: write_file_def split: if_splits)

lemma create_instance_except_frame:
  "create_instance_except self e instances w = (r, w') \<Longrightarrow>
     trace w' = trace w \<and> files w' = files w \<and> (\<exists>e'. r = Inl e')"
  by (auto simp: create_instance_except_def local_var_def split: if_splits option.splits)

lemma run0_result: "fst run0 = Inr ''i-0aaa''"
  by (simp add: run0_def create_instance_def create_instance_except_def fake_ec2_api_def
      invoke_def world0_def ec2_0_def write_file_def local_var_def logger_def Let_def)

lemma run0_trace:
  "trace (snd run0) =
     [Ev (DeleteKeyPair ''deploy-key'') (Inr Done),
      Ev (CreateKeyPair ''deploy-key'') (Inr (Text ''NEW-MATERIAL'')),
      Ev (WriteFile ''key.pem'' ''NEW-MATERIAL'') (Inr Done),
      Ev (RunInstances (launch_request ''#!/bin/sh'' [''sg-1''] ''deploy-key''))
         (Inr (Names [''i-0bbb''])),
      Ev DescribeInstances (Inr (Machines [(''i-0bbb'', ''pending''), (''i-0aaa'', ''running'')]))]"
  by (simp add: run0_def create_instance_def create_instance_except_def fake_ec2_api_def
      invoke_def world0_def ec2_0_def write_file_def local_var_def logger_def Let_def
      launch_request_def)

lemma scan_instances_fst:
  "fst (scan_instances listing acc w) = (if listing = [] then acc else Some (fst (last listing)))"
  by (induction listing arbitrary: acc w) auto

lemma scan_instances_snd:
  "provider (snd (scan_instances listing acc w)) = provider w
   \<and> trace (snd (scan_instances listing acc w)) = trace w
   \<and> files (snd (scan_instances listing acc w)) = files w"
  by (induction listing arbitrary: acc w) auto

lemma scan_instances_frame:
  "scan_instances listing acc w = (r, w') \<Longrightarrow>
     r = (if listing = [] then acc else Some (fst (last listing)))
     \<and> provider w' = provider w \<and> trace w' = trace w \<and> files w' = files w"
  using scan_instances_fst [of listing acc w] scan_instances_snd [of listing acc w] by simp

lemma invoke_all:
  "invoke c enc f w = (r, w') \<Longrightarrow>
     f (provider w) = (r, provider w') \<and> trace w' = trace w @ [Ev c (map_sum id enc r)]
     \<and> files w' = files w \<and> unwritable w' = unwritable w"
  by (auto simp: invoke_def split: prod.splits)

lemma write_file_all:
  "write_file f c w = (r, w') \<Longrightarrow>
     provider w' = provider w
     \<and> trace w' = trace w @ [Ev (WriteFile f c) (map_sum id (\<lambda>u. Done) r)]
     \<and> (if unwritable w f then r = Inl (OSError f) \<and> files w' = files w
         else r = Inr () \<and> files w' = (files w)(f \<mapsto> c))"
  by (auto simp: write_file_def split: if_splits)

lemma create_instance_except_all:
  "create_instance_except self e instances w = (r, w') \<Longrightarrow>
     provider w' = provider w \<and> trace w' = trace w \<and> files w' = files w \<and> (\<exists>e'. r = Inl e')"
  by (auto simp: create_instance_except_def local_var_def split: if_splits option.splits)

lemma unwritable_logger [simp]: "unwritable (logger l m as w) = unwritable w"
  by (simp add: logger_def)

lemma run0_steps:
  "ec2_delete_key_pair fake_ec2_api ''deploy-key'' (provider (world0 ec2_0)) = (Inr (), ec2_1)
   \<and> ec2_create_key_pair fake_ec2_api ''deploy-key'' ec2_1 = (Inr ''NEW-MATERIAL'', ec2_2)
   \<and> ec2_create_instances fake_ec2_api (launch_request ''#!/bin/sh'' [''sg-1''] ''deploy-key'') ec2_2
       = (Inr [''i-0bbb''], ec2_3)
   \<and> ec2_instances_all fake_ec2_api ec2_3
       = (Inr [(''i-0bbb'', ''pending''), (''i-0aaa'', ''running'')], ec2_3)
   \<and> \<not> unwritable (world0 ec2_0) ''key.pem''"
  by (simp add: fake_ec2_api_def world0_def ec2_0_def ec2_1_def ec2_2_def ec2_3_def
      launch_request_def)

text \<open>
  C2: take any provider that deletes the key pair of the given name and then creates it
  anew, returning \<open>material\<close>. Then \<^verbatim>\<open>create_instance\<close> makes these two calls first,
  in this order, and writes \<open>material\<close> to the key file before it asks for the launch:
  the launch request is sent to the provider's state \<open>p2\<close> that the creation of the key
  pair left, and at the end the key file holds exactly \<open>material\<close>. If the key file
  cannot be written, the write raises and the provider is left in \<open>p2\<close>: nothing is
  launched. In the account \<open>ec2_0\<close> the key pair exists with other material: after the
  run, the key file and the provider's key pair both hold the new material.
\<close>

theorem create_instance_rotates_key_before_launch:
  assumes "create_instance api self key_file key_pair role_arn role_name startup_script
             security_groups w = (r, w')"
    and "ec2_delete_key_pair api key_pair (provider w) = (Inr u, p1)"
    and "ec2_create_key_pair api key_pair p1 = (Inr material, p2)"
    and "ec2_create_instances api (launch_request startup_script security_groups key_pair) p2
           = (launch, p3)"
  shows "if unwritable w key_file
         then r = Inl (OSError key_file) \<and> provider w' = p2 \<and> files w' = files w
         else files w' key_file = Some material
            \<and> provider w' = (case launch of Inl e \<Rightarrow> p3 | Inr ids \<Rightarrow> snd (ec2_instances_all api p3))
            \<and> (\<exists>rest. trace w' = trace w @
                  [Ev (DeleteKeyPair key_pair) (Inr Done),
                   Ev (CreateKeyPair key_pair) (Inr (Text material)),
                   Ev (WriteFile key_file material) (Inr Done),
                   Ev (RunInstances (launch_request startup_script security_groups key_pair))
                      (map_sum id Names launch)] @ rest)"
proof -
  note api = assms(2) assms(3) assms(4) [unfolded launch_request_def]
  show ?thesis
  proof (cases "unwritable w key_file")
    case True
    with assms(1) api show ?thesis
      by (auto simp: create_instance_def invoke_def write_file_def create_instance_except_def)
  next
    case False
    with assms(1) api show ?thesis
      by (auto simp: create_instance_def invoke_def write_file_def create_instance_except_def
          local_var_def Let_def launch_request_def
          split: prod.splits sum.splits if_splits option.splits
          dest!: scan_instances_frame)
  qed
qed

theorem create_instance_rotates_key_before_launch_witness:
  "ec2_delete_key_pair fake_ec2_api ''deploy-key'' (provider (world0 ec2_0)) = (Inr (), ec2_1)
   \<and> ec2_create_key_pair fake_ec2_api ''deploy-key'' ec2_1 = (Inr ''NEW-MATERIAL'', ec2_2)
   \<and> ec2_create_instances fake_ec2_api (launch_request ''#!/bin/sh'' [''sg-1''] ''deploy-key'') ec2_2
       = (Inr [''i-0bbb''], ec2_3)
   \<and> \<not> unwritable (world0 ec2_0) ''key.pem''
   \<and> map_of (ec2_key_pairs ec2_0) ''deploy-key'' = Some ''OLD-MATERIAL''
   \<and> files (snd run0) ''key.pem'' = Some ''NEW-MATERIAL''
   \<and> provider (snd run0) = ec2_3
   \<and> map_of (ec2_key_pairs (provider (snd run0))) ''deploy-key'' = Some ''NEW-MATERIAL''"
proof -
  have run: "create_instance fake_ec2_api (InstanceManagement_init ''eu-west-2'') ''key.pem''
            ''deploy-key'' ''arn:aws:iam::123456789012:role/svc/svc-role'' ''svc-role''
            ''#!/bin/sh'' [''sg-1''] (world0 ec2_0) = (fst run0, snd run0)"
    by (simp add: run0_def)
  note s = run0_steps
  from create_instance_rotates_key_before_launch
    [OF run s [THEN conjunct1] s [THEN conjunct2, THEN conjunct1]
        s [THEN conjunct2, THEN conjunct2, THEN conjunct1]] s
  have "files (snd run0) ''key.pem'' = Some ''NEW-MATERIAL'' \<and> provider (snd run0) = ec2_3"
    by simp
  moreover have "map_of (ec2_key_pairs ec2_0) ''deploy-key'' = Some ''OLD-MATERIAL''"
    by (simp add: ec2_0_def)
  moreover have "map_of (ec2_key_pairs ec2_3) ''deploy-key'' = Some ''NEW-MATERIAL''"
    by (simp add: ec2_3_def ec2_2_def)
  ultimately show ?thesis using s by simp
qed

text \<open>
  C7 (the code departs from it): the provider rejects the launch (an unknown security
  group). The handler's first statement reads \<open>instances\<close>, which the failed launch never
  bound: \<^verbatim>\<open>create_instance\<close> raises \<^verbatim>\<open>UnboundLocalError\<close>, logs nothing, and the
  provider's error is not the one raised.
\<close>

theorem create_instance_launch_failure_raises_unbound_local:
  "fst (create_instance fake_ec2_api (InstanceManagement_init ''eu-west-2'') ''key.pem''
          ''deploy-key'' ''arn:aws:iam::123456789012:role/svc/svc-role'' ''svc-role''
          ''#!/bin/sh'' [''sg-missing''] (world0 ec2_0))
     = Inl (UnboundLocalError ''instances'')
   \<and> log (snd (create_instance fake_ec2_api (InstanceManagement_init ''eu-west-2'') ''key.pem''
          ''deploy-key'' ''arn:aws:iam::123456789012:role/svc/svc-role'' ''svc-role''
          ''#!/bin/sh'' [''sg-missing''] (world0 ec2_0))) = []
   \<and> last (trace (snd (create_instance fake_ec2_api (InstanceManagement_init ''eu-west-2'')
          ''key.pem'' ''deploy-key'' ''arn:aws:iam::123456789012:role/svc/svc-role'' ''svc-role''
          ''#!/bin/sh'' [''sg-missing''] (world0 ec2_0))))
     = Ev (RunInstances (launch_request ''#!/bin/sh'' [''sg-missing''] ''deploy-key''))
          (Inl (ClientError ''InvalidGroup.NotFound'' ''sg-missing''))"
  by (simp add: create_instance_def create_instance_except_def fake_ec2_api_def invoke_def
      world0_def ec2_0_def write_file_def local_var_def Let_def launch_request_def)

lemma create_instance_success:
  assumes "create_instance api self key_file key_pair role_arn role_name startup_script
             security_groups w = (Inr i, w')"
  shows "\<exists>u p1 material p2 launched p3 listing.
          ec2_delete_key_pair api key_pair (provider w) = (Inr u, p1)
        \<and> ec2_create_key_pair api key_pair p1 = (Inr material, p2)
        \<and> \<not> unwritable w key_file
        \<and> ec2_create_instances api (launch_request startup_script security_groups key_pair) p2
            = (Inr launched, p3)
        \<and> ec2_instances_all api p3 = (Inr listing, provider w')
        \<and> listing \<noteq> [] \<and> i = fst (last listing)"
proof -
  let ?req = "launch_request startup_script security_groups key_pair"
  from assms obtain u w1 where
    s1: "invoke (DeleteKeyPair key_pair) (\<lambda>u. Done) (ec2_delete_key_pair api key_pair) w = (Inr u, w1)"
    unfolding create_instance_def Let_def
    by (auto split: prod.splits sum.splits dest!: create_instance_except_all)
  from assms s1 obtain material w2 where
    s2: "invoke (CreateKeyPair key_pair) Text (ec2_create_key_pair api key_pair) w1 = (Inr material, w2)"
    unfolding create_instance_def Let_def
    by (auto split: prod.splits sum.splits dest!: create_instance_except_all)
  from assms s1 s2 obtain w3 where
    s3: "write_file key_file material w2 = (Inr (), w3)"
    unfolding create_instance_def Let_def
    by (auto split: prod.splits sum.splits dest!: create_instance_except_all)
  from assms s1 s2 s3 obtain launched w4 where
    s4: "invoke (RunInstances ?req) Names (ec2_create_instances api ?req) w3 = (Inr launched, w4)"
    unfolding create_instance_def Let_def launch_request_def
    by (auto split: prod.splits sum.splits dest!: create_instance_except_all)
  from assms s1 s2 s3 s4 obtain listing w5 where
    s5: "invoke DescribeInstances Machines (ec2_instances_all api) w4 = (Inr listing, w5)"
    unfolding create_instance_def Let_def launch_request_def
    by (auto split: prod.splits sum.splits dest!: create_instance_except_all)
  from assms s1 s2 s3 s4 s5 have
    s6: "scan_instances listing None w5 = (Some i, w')"
    unfolding create_instance_def Let_def launch_request_def
    by (auto simp: local_var_def split: prod.splits sum.splits option.splits)
  note a1 = invoke_all [OF s1] and a2 = invoke_all [OF s2] and a3 = write_file_all [OF s3]
    and a4 = invoke_all [OF s4] and a5 = invoke_all [OF s5] and a6 = scan_instances_frame [OF s6]
  from a3 a2 a1 have nw: "\<not> unwritable w key_file" by (auto split: if_splits)
  from a6 have l: "listing \<noteq> []" "i = fst (last listing)" by (auto split: if_splits)
  have "ec2_delete_key_pair api key_pair (provider w) = (Inr u, provider w1)
        \<and> ec2_create_key_pair api key_pair (provider w1) = (Inr material, provider w2)
        \<and> \<not> unwritable w key_file
        \<and> ec2_create_instances api ?req (provider w2) = (Inr launched, provider w4)
        \<and> ec2_instances_all api (provider w4) = (Inr listing, provider w')
        \<and> listing \<noteq> [] \<and> i = fst (last listing)"
    using a1 a2 a3 a4 a5 a6 nw l by simp
  then show ?thesis by blast
qed

lemma create_instance_returns:
  assumes "ec2_delete_key_pair api key_pair (provider w) = (Inr u, p1)"
    and "ec2_create_key_pair api key_pair p1 = (Inr material, p2)"
    and "\<not> unwritable w key_file"
    and "ec2_create_instances api (launch_request startup_script security_groups key_pair) p2
            = (Inr launched, p3)"
    and "ec2_instances_all api p3 = (Inr listing, p4)"
    and "listing \<noteq> []"
  shows "fst (create_instance api self key_file key_pair role_arn role_name startup_script
             security_groups w) = Inr (fst (last listing))
       \<and> provider (snd (create_instance api self key_file key_pair role_arn role_name
             startup_script security_groups w)) = p4"
  using assms(1,2,3,5,6) assms(4) [unfolded launch_request_def]
  by (auto simp: create_instance_def invoke_def write_file_def local_var_def Let_def
      split: prod.splits dest!: scan_instances_frame)

text \<open>
  C9: \<^verbatim>\<open>create_instance\<close> returns \<open>i\<close> exactly when the provider deleted and
  created the key pair, the key file was written, the launch succeeded and the account's
  listing, fetched from the provider after the launch, is not empty; \<open>i\<close> is then the id
  of the last instance of that listing, and the ids \<open>launched\<close> of the launch response
  are not used. In the account \<open>ec2_0\<close>, whose listing puts the newest instance first,
  the provider launches \<^verbatim>\<open>i-0bbb\<close> and the id returned is \<^verbatim>\<open>i-0aaa\<close>.
\<close>

theorem create_instance_returns_last_listed_id:
  "(create_instance api self key_file key_pair role_arn role_name startup_script security_groups w
      = (Inr i, w') \<longrightarrow>
    (\<exists>u p1 material p2 launched p3 listing.
          ec2_delete_key_pair api key_pair (provider w) = (Inr u, p1)
        \<and> ec2_create_key_pair api key_pair p1 = (Inr material, p2)
        \<and> \<not> unwritable w key_file
        \<and> ec2_create_instances api (launch_request startup_script security_groups key_pair) p2
            = (Inr launched, p3)
        \<and> ec2_instances_all api p3 = (Inr listing, provider w')
        \<and> listing \<noteq> [] \<and> i = fst (last listing)))
   \<and> (ec2_delete_key_pair api key_pair (provider w) = (Inr u0, q1)
        \<and> ec2_create_key_pair api key_pair q1 = (Inr material0, q2)
        \<and> \<not> unwritable w key_file
        \<and> ec2_create_instances api (launch_request startup_script security_groups key_pair) q2
            = (Inr launched0, q3)
        \<and> ec2_instances_all api q3 = (Inr listing0, q4)
        \<and> listing0 \<noteq> [] \<longrightarrow>
      fst (create_instance api self key_file key_pair role_arn role_name startup_script
             security_groups w) = Inr (fst (last listing0))
      \<and> provider (snd (create_instance api self key_file key_pair role_arn role_name
             startup_script security_groups w)) = q4)
   \<and> fst run0 = Inr ''i-0aaa''
   \<and> ec2_create_instances fake_ec2_api (launch_request ''#!/bin/sh'' [''sg-1''] ''deploy-key'') ec2_2
       = (Inr [''i-0bbb''], ec2_3)
   \<and> provider (snd run0) = ec2_3"
proof -
  have run: "create_instance fake_ec2_api (InstanceManagement_init ''eu-west-2'') ''key.pem''
            ''deploy-key'' ''arn:aws:iam::123456789012:role/svc/svc-role'' ''svc-role''
            ''#!/bin/sh'' [''sg-1''] (world0 ec2_0) = run0"
    by (simp add: run0_def)
  note s = run0_steps
  from create_instance_returns
    [OF s [THEN conjunct1] s [THEN conjunct2, THEN conjunct1]
        s [THEN conjunct2, THEN conjunct2, THEN conjunct2, THEN conjunct2]
        s [THEN conjunct2, THEN conjunct2, THEN conjunct1]
        s [THEN conjunct2, THEN conjunct2, THEN conjunct2, THEN conjunct1],
      of "InstanceManagement_init ''eu-west-2''" "''arn:aws:iam::123456789012:role/svc/svc-role''"
         "''svc-role''"]
  have c: "fst run0 = Inr ''i-0aaa'' \<and> provider (snd run0) = ec2_3"
    by (simp add: run)
  show ?thesis
    using create_instance_success [of api self key_file key_pair role_arn role_name
        startup_script security_groups w i w']
      create_instance_returns [of api key_pair w u0 q1 material0 q2 key_file startup_script
        security_groups launched0 q3 listing0 q4 self role_arn role_name]
      c s
    by blast
qed

theorem create_instance_returns_last_listed_id_witness:
  "create_instance fake_ec2_api (InstanceManagement_init ''eu-west-2'') ''key.pem''
      ''deploy-key'' ''arn:aws:iam::123456789012:role/svc/svc-role'' ''svc-role''
      ''#!/bin/sh'' [''sg-1''] (world0 ec2_0) = (Inr ''i-0aaa'', snd run0)
   \<and> (\<exists>p2 launched p3 listing.
        ec2_create_instances fake_ec2_api (launch_request ''#!/bin/sh'' [''sg-1''] ''deploy-key'') p2
          = (Inr launched, p3)
      \<and> ec2_instances_all fake_ec2_api p3 = (Inr listing, provider (snd run0))
      \<and> ''i-0aaa'' = fst (last listing))
   \<and> ''i-0aaa'' \<notin> set [''i-0bbb'']"
proof -
  have run: "create_instance fake_ec2_api (InstanceManagement_init ''eu-west-2'') ''key.pem''
      ''deploy-key'' ''arn:aws:iam::123456789012:role/svc/svc-role'' ''svc-role''
      ''#!/bin/sh'' [''sg-1''] (world0 ec2_0) = (Inr ''i-0aaa'', snd run0)"
    using run0_result by (simp add: run0_def prod_eq_iff)
  from create_instance_returns_last_listed_id
     [of fake_ec2_api "InstanceManagement_init ''eu-west-2''" "''key.pem''" "''deploy-key''"
         "''arn:aws:iam::123456789012:role/svc/svc-role''" "''svc-role''" "''#!/bin/sh''"
         "[''sg-1'']" "world0 ec2_0" "''i-0aaa''" "snd run0", THEN conjunct1] run
  have "\<exists>u p1 material p2 launched p3 listing.
          ec2_delete_key_pair fake_ec2_api ''deploy-key'' (provider (world0 ec2_0)) = (Inr u, p1)
        \<and> ec2_create_key_pair fake_ec2_api ''deploy-key'' p1 = (Inr material, p2)
        \<and> \<not> unwritable (world0 ec2_0) ''key.pem''
        \<and> ec2_create_instances fake_ec2_api
             (launch_request ''#!/bin/sh'' [''sg-1''] ''deploy-key'') p2 = (Inr launched, p3)
        \<and> ec2_instances_all fake_ec2_api p3 = (Inr listing, provider (snd run0))
        \<and> listing \<noteq> [] \<and> ''i-0aaa'' = fst (last listing)"
    by blast
  then have "\<exists>p2 launched p3 listing.
        ec2_create_instances fake_ec2_api (launch_request ''#!/bin/sh'' [''sg-1''] ''deploy-key'') p2
          = (Inr launched, p3)
      \<and> ec2_instances_all fake_ec2_api p3 = (Inr listing, provider (snd run0))
      \<and> ''i-0aaa'' = fst (last listing)"
    by blast
  with run show ?thesis by simp
qed

section \<open>Bucket policies\<close>





lemma cons_fst_Some [simp]: "cons_fst x (Some (xs, r)) = Some (x # xs, r)"
  by (simp add: cons_fst_def)

lemma scanstring_quote: "scanstring (CHR 0x22 # t) = Some ([], t)"
  by simp

lemma scanstring_esc:
  "unescape e = Some d \<Longrightarrow> e \<noteq> CHR ''u'' \<Longrightarrow>
     scanstring (CHR 0x5C # e # t) = cons_fst d (scanstring t)"
  by simp







lemma hd_encode: "encode_basestring_ascii s = CHR 0x22 # tl (encode_basestring_ascii s)"
  by (simp add: encode_basestring_ascii_def)

lemma of_char_digit: "d < 10 \<Longrightarrow> (of_char (char_of (48 + d :: nat)) :: nat) = 48 + d"
  by simp

























lemma skip_ws_encode: "skip_ws (encode_basestring_ascii s @ t) = encode_basestring_ascii s @ t"
  by (simp add: encode_basestring_ascii_def is_ws_def)

lemma delim_simps [simp]:
  "delim []" "delim (CHR '','' # t)" "delim (CHR '']'' # t)" "delim (CHR ''}'' # t)"
  by (simp_all add: delim_def)





lemma item_text_starts: "item_text kv @ t = CHR 0x22 # (tl (item_text kv) @ t)"
  by (simp add: item_text_def encode_basestring_ascii_def)




















end
